theory Spec2Isabelle
  imports Complex_Main
begin

section \<open>Churn prediction service: the feature encoder and the prediction call\<close>

text \<open>
  The development follows \<^verbatim>\<open>app.py\<close>: \<^verbatim>\<open>preprocess_data\<close> turns the dictionary of
  one customer into the row the classifier expects, \<^verbatim>\<open>predict\<close> wraps it in a
  try/except and maps the class to a text.

  Conventions of the embedding.
  \<^item> The \<^verbatim>\<open>DataFrame\<close> built from one dictionary has one row; it is a map from column
    names to the cell of that row. A cell is a Python string, a Python integer (of any
    size) or a float. \<^verbatim>\<open>None\<close> is not a cell.
  \<^item> Strings are lists of 8-bit characters, the code points below 256; the whitespace
    of \<^verbatim>\<open>str.strip\<close> and of \<^verbatim>\<open>float\<close> is Python's on that range (codes 9 to 13, 28 to 32,
    133 and 160).
  \<^item> A 64-bit float is either \<open>NaN\<close> or \<open>Num v\<close>, where \<open>v\<close> ranges over a type
    \<open>'f\<close> of the non-NaN doubles (the infinities included). Arithmetic, rounding and
    the parser of numerals are not defined here: they are fields of a record
    \<open>'f runtime\<close>, and every theorem holds for every such record.
  \<^item> Every exception of the source is a value of type \<open>'f error\<close>; a computation
    that may raise has type \<open>'f error + 'a\<close>.
  \<^item> The fitted transformers are loaded from \<^verbatim>\<open>model/*.pkl\<close>, which are not part of
    the sources; they are the record \<open>'f artifacts\<close>, a parameter of every function.
  \<^item> Standard output is a list of entries, threaded through the calls.
  \<^item> The dictionary and the transformers are first taken as values. The part on the
    heap of objects then repeats the encoder with the dictionary passed by reference
    and the frame of line 25 as a new object, and relates the two.
\<close>

subsection \<open>Python values\<close>

datatype 'f pyfloat = NaN | Num 'f

datatype 'f cell = PStr string | PInt int | PFloat "'f pyfloat"

text \<open>
  The exceptions, by the statement that raises them: \<open>KeyError\<close> (a column or an
  encoder that is not there), \<open>AttributeError\<close> (\<^verbatim>\<open>.str\<close> on a numeric column),
  \<open>CouldNotConvert s\<close> (\<^verbatim>\<open>ValueError: could not convert string to float\<close>),
  \<open>OverflowError i\<close> (\<^verbatim>\<open>int too large to convert to float\<close>),
  \<open>UnseenLabels\<close> (\<^verbatim>\<open>LabelEncoder.transform\<close>), \<open>UnknownCategories c i\<close>
  (\<^verbatim>\<open>OneHotEncoder.transform\<close>, value and column index), \<open>FeatureCountMismatch\<close>
  (a transformer given another number of columns than it was fitted on),
  \<open>InputContainsInfinity\<close> (the input validation of \<^verbatim>\<open>MinMaxScaler.transform\<close>),
  \<open>UnseenClassIndex\<close> (\<^verbatim>\<open>LabelEncoder.inverse_transform\<close>) and \<open>ModelError\<close>
  (whatever the classifier raises).
\<close>

datatype 'f error =
    KeyError string
  | AttributeError string
  | CouldNotConvert string
  | OverflowError int
  | UnseenLabels "'f cell"
  | UnknownCategories "'f cell" nat
  | FeatureCountMismatch nat nat
  | InputContainsInfinity
  | UnseenClassIndex int
  | ModelError string

type_synonym 'f frame = "string \<rightharpoonup> 'f cell"

text \<open>
  The primitives kept abstract. \<open>f_of_int\<close> is the conversion of an integer to the nearest
  double (an infinity when the integer is beyond the range of doubles),
  \<open>f_mul\<close> and \<open>f_add\<close> are the IEEE operations on non-NaN operands (their result may
  be NaN, as for \<open>inf * 0\<close>), \<open>f_isinf\<close> recognises the two infinities, \<open>f_clip v lo hi\<close>
  is \<^verbatim>\<open>numpy.clip\<close> on non-NaN numbers, \<open>f_parse\<close> is Python's \<^verbatim>\<open>float(s)\<close> on a non-empty
  string without surrounding whitespace (\<open>None\<close> when it raises \<^verbatim>\<open>ValueError\<close>), and
  \<open>str_exc\<close> is \<^verbatim>\<open>str(e)\<close> on an exception.
\<close>

record 'f runtime =
  f_of_int :: "int \<Rightarrow> 'f"
  f_mul :: "'f \<Rightarrow> 'f \<Rightarrow> 'f pyfloat"
  f_add :: "'f \<Rightarrow> 'f \<Rightarrow> 'f pyfloat"
  f_isinf :: "'f \<Rightarrow> bool"
  f_clip :: "'f \<Rightarrow> 'f \<Rightarrow> 'f \<Rightarrow> 'f"
  f_parse :: "string \<Rightarrow> 'f pyfloat option"
  str_exc :: "'f error \<Rightarrow> string"

definition and_then :: "'e + 'a \<Rightarrow> ('a \<Rightarrow> 'e + 'b) \<Rightarrow> 'e + 'b" where
  "and_then m f = (case m of Inl e \<Rightarrow> Inl e | Inr x \<Rightarrow> f x)"

subsection \<open>Strings\<close>

definition is_space :: "char \<Rightarrow> bool" where
  "is_space c =
     (let n = of_char c :: nat
      in (9 \<le> n \<and> n \<le> 13) \<or> (28 \<le> n \<and> n \<le> 32) \<or> n = 133 \<or> n = 160)"

definition strip :: "string \<Rightarrow> string" where
  "strip s = rev (dropWhile is_space (rev (dropWhile is_space s)))"

text \<open>\<^verbatim>\<open>float(s)\<close> on a string: surrounding whitespace is dropped, an empty rest raises.\<close>

definition py_float :: "'f runtime \<Rightarrow> string \<Rightarrow> 'f pyfloat option" where
  "py_float R s = (let t = strip s in if t = [] then None else f_parse R t)"

subsection \<open>Single-row frames\<close>

text \<open>\<^verbatim>\<open>df[col]\<close>, \<^verbatim>\<open>df[cols]\<close> and \<^verbatim>\<open>df[cols] = values\<close>.\<close>

definition getitem :: "'f frame \<Rightarrow> string \<Rightarrow> 'f error + 'f cell" where
  "getitem df col = (case df col of None \<Rightarrow> Inl (KeyError col) | Some c \<Rightarrow> Inr c)"

fun traverse :: "('a \<Rightarrow> 'e + 'b) \<Rightarrow> 'a list \<Rightarrow> 'e + 'b list" where
  "traverse f [] = Inr []"
| "traverse f (x # xs) =
     and_then (f x) (\<lambda>y. and_then (traverse f xs) (\<lambda>ys. Inr (y # ys)))"

definition getitems :: "'f frame \<Rightarrow> string list \<Rightarrow> 'f error + 'f cell list" where
  "getitems df cols = traverse (getitem df) cols"

fun setitems :: "'f frame \<Rightarrow> string list \<Rightarrow> 'f cell list \<Rightarrow> 'f frame" where
  "setitems df [] xs = df"
| "setitems df (col # cols) xs =
     (case xs of [] \<Rightarrow> df | x # xs' \<Rightarrow> setitems (df(col \<mapsto> x)) cols xs')"

text \<open>\<^verbatim>\<open>.str.strip()\<close> on the cell of a column; the accessor refuses numeric columns.\<close>

definition str_strip :: "'f cell \<Rightarrow> 'f error + 'f cell" where
  "str_strip c =
     (case c of
        PStr s \<Rightarrow> Inr (PStr (strip s))
      | _ \<Rightarrow> Inl (AttributeError ''Can only use .str accessor with string values!''))"

text \<open>
  \<^verbatim>\<open>.replace(' ', np.nan)\<close> replaces the cells equal to the one-character string;
  \<^verbatim>\<open>.astype(float)\<close> converts integers, keeps floats and calls \<^verbatim>\<open>float\<close> on strings.
  An integer that fits in 64 bits is held by pandas in an \<^verbatim>\<open>int64\<close> or \<^verbatim>\<open>uint64\<close> column,
  and numpy's cast of such a column to doubles does not raise. A larger integer stays
  a Python object: \<^verbatim>\<open>float\<close> is called on it and raises \<^verbatim>\<open>OverflowError\<close> when the nearest
  double is not finite (from \<^verbatim>\<open>2**1024 - 2**970\<close> on).
\<close>

definition fits_64_bits :: "int \<Rightarrow> bool" where
  "fits_64_bits i \<longleftrightarrow> - (2 ^ 63) \<le> i \<and> i < 2 ^ 64"

definition replace_space :: "'f cell \<Rightarrow> 'f cell" where
  "replace_space c = (if c = PStr '' '' then PFloat NaN else c)"

definition astype_float :: "'f runtime \<Rightarrow> 'f cell \<Rightarrow> 'f error + 'f pyfloat" where
  "astype_float R c =
     (case c of
        PStr s \<Rightarrow> (case py_float R s of None \<Rightarrow> Inl (CouldNotConvert s) | Some x \<Rightarrow> Inr x)
      | PInt i \<Rightarrow>
          if fits_64_bits i \<or> \<not> f_isinf R (f_of_int R i) then Inr (Num (f_of_int R i))
          else Inl (OverflowError i)
      | PFloat x \<Rightarrow> Inr x)"

text \<open>
  \<^verbatim>\<open>.mean()\<close> of a column skips the missing values and divides the sum of the others
  by their number. The frame has one row: the mean is the value itself (\<open>v / 1\<close>),
  and NaN when that value is missing. \<^verbatim>\<open>.fillna(m)\<close> puts \<open>m\<close> where a value is
  missing.
\<close>

definition column_mean :: "'f pyfloat \<Rightarrow> 'f pyfloat" where
  "column_mean x = (case x of NaN \<Rightarrow> NaN | Num v \<Rightarrow> Num v)"

definition fillna :: "'f pyfloat \<Rightarrow> 'f pyfloat \<Rightarrow> 'f pyfloat" where
  "fillna x m = (case x of NaN \<Rightarrow> m | Num v \<Rightarrow> Num v)"

subsection \<open>The fitted transformers\<close>

text \<open>
  What \<^verbatim>\<open>joblib.load\<close> returns, by the attributes the calls read: the classes of each
  label encoder, the categories of each column of the one-hot encoder, for each
  column of the scaler \<^verbatim>\<open>data_min_\<close>, \<^verbatim>\<open>data_max_\<close>, \<^verbatim>\<open>scale_\<close> and \<^verbatim>\<open>min_\<close>, the
  scaler's \<^verbatim>\<open>clip\<close> and \<^verbatim>\<open>feature_range\<close>, the classifier as the function of its
  \<^verbatim>\<open>predict\<close> on one row, and the classes of the target encoder.

  Modelled from the spec: the pickled encoders are not in the repository. The one-hot
  encoder returns a dense indicator block, one column per category, and refuses a
  category it was not fitted on, as the spec's data model and its step 4 say.
\<close>

record 'f scaler_col =
  data_min :: 'f
  data_max :: 'f
  scaler_scale :: 'f
  scaler_min :: 'f

record 'f scaler =
  scaler_cols :: "'f scaler_col list"
  clip :: bool
  feature_range :: "'f \<times> 'f"

record 'f artifacts =
  label_encoders :: "string \<rightharpoonup> string list"
  one_hot_encoder :: "string list list"
  min_max_scaler :: "'f scaler"
  model :: "'f pyfloat list \<Rightarrow> 'f error + int"
  le_target :: "string list"

fun index_of :: "'a \<Rightarrow> 'a list \<Rightarrow> nat option" where
  "index_of x [] = None"
| "index_of x (y # ys) = (if x = y then Some 0 else map_option Suc (index_of x ys))"

text \<open>
  \<^verbatim>\<open>LabelEncoder.transform\<close> on one value: its position among the classes. The
  classes are strings, so a number is an unseen label (the label columns hold strings
  when line 44 runs: line 35 has stripped them).
\<close>

definition le_transform :: "string list \<Rightarrow> 'f cell \<Rightarrow> 'f error + int" where
  "le_transform classes c =
     (case c of
        PStr s \<Rightarrow> (case index_of s classes of
                    None \<Rightarrow> Inl (UnseenLabels c)
                  | Some i \<Rightarrow> Inr (int i))
      | _ \<Rightarrow> Inl (UnseenLabels c))"

text \<open>\<^verbatim>\<open>LabelEncoder.inverse_transform\<close> on one class index.\<close>

definition inverse_transform :: "string list \<Rightarrow> int \<Rightarrow> 'f error + string" where
  "inverse_transform classes y =
     (if 0 \<le> y \<and> y < int (length classes) then Inr (classes ! nat y)
      else Inl (UnseenClassIndex y))"

text \<open>
  \<^verbatim>\<open>OneHotEncoder.transform\<close>: the number of columns is checked, then the columns are
  visited in order; the block of a column has a one at the position of the value.
\<close>

definition one_hot :: "'f runtime \<Rightarrow> nat \<Rightarrow> nat \<Rightarrow> 'f pyfloat list" where
  "one_hot R n k = map (\<lambda>j. Num (f_of_int R (if j = k then 1 else 0))) [0..<n]"

fun ohe_columns ::
  "'f runtime \<Rightarrow> nat \<Rightarrow> string list list \<Rightarrow> 'f cell list \<Rightarrow> 'f error + 'f pyfloat list" where
  "ohe_columns R i (cats # rest) (x # xs) =
     (case x of
        PStr s \<Rightarrow> (case index_of s cats of
                    None \<Rightarrow> Inl (UnknownCategories x i)
                  | Some k \<Rightarrow> and_then (ohe_columns R (Suc i) rest xs)
                               (\<lambda>blocks. Inr (one_hot R (length cats) k @ blocks)))
      | _ \<Rightarrow> Inl (UnknownCategories x i))"
| "ohe_columns R i _ _ = Inr []"

definition ohe_transform ::
  "'f runtime \<Rightarrow> string list list \<Rightarrow> 'f cell list \<Rightarrow> 'f error + 'f pyfloat list" where
  "ohe_transform R categories xs =
     (if length xs \<noteq> length categories
      then Inl (FeatureCountMismatch (length xs) (length categories))
      else ohe_columns R 0 categories xs)"

text \<open>
  \<^verbatim>\<open>MinMaxScaler.transform\<close>: the input is converted to floats and validated (NaN is
  let through, an infinity is refused), the number of columns is checked, then
  \<^verbatim>\<open>X *= scale_; X += min_\<close> and, if \<^verbatim>\<open>clip\<close> is set, \<^verbatim>\<open>numpy.clip\<close> to the feature range.
  Nothing is divided here, and \<^verbatim>\<open>data_min_\<close> and \<^verbatim>\<open>data_max_\<close> are not read.
\<close>

definition is_inf :: "'f runtime \<Rightarrow> 'f pyfloat \<Rightarrow> bool" where
  "is_inf R x = (case x of NaN \<Rightarrow> False | Num v \<Rightarrow> f_isinf R v)"

definition scale_value :: "'f runtime \<Rightarrow> 'f scaler \<Rightarrow> 'f scaler_col \<Rightarrow> 'f pyfloat \<Rightarrow> 'f pyfloat" where
  "scale_value R sc col x =
     (case x of
        NaN \<Rightarrow> NaN
      | Num v \<Rightarrow>
          (case f_mul R v (scaler_scale col) of
             NaN \<Rightarrow> NaN
           | Num w \<Rightarrow>
               (case f_add R w (scaler_min col) of
                  NaN \<Rightarrow> NaN
                | Num y \<Rightarrow>
                    if clip sc
                    then Num (f_clip R y (fst (feature_range sc)) (snd (feature_range sc)))
                    else Num y)))"

definition mms_transform ::
  "'f runtime \<Rightarrow> 'f scaler \<Rightarrow> 'f cell list \<Rightarrow> 'f error + 'f pyfloat list" where
  "mms_transform R sc cells =
     and_then (traverse (astype_float R) cells) (\<lambda>xs.
       if list_ex (is_inf R) xs then Inl InputContainsInfinity
       else if length xs \<noteq> length (scaler_cols sc)
       then Inl (FeatureCountMismatch (length xs) (length (scaler_cols sc)))
       else Inr (map2 (scale_value R sc) (scaler_cols sc) xs))"

subsection \<open>The feature encoder\<close>

definition label_encode_cols :: "string list" where
  "label_encode_cols =
     [''Partner'', ''Dependents'', ''PhoneService'', ''PaperlessBilling'', ''gender'']"

definition one_hot_encode_cols :: "string list" where
  "one_hot_encode_cols =
     [''MultipleLines'', ''InternetService'', ''OnlineSecurity'', ''OnlineBackup'',
      ''DeviceProtection'', ''TechSupport'', ''StreamingTV'', ''StreamingMovies'',
      ''Contract'', ''PaymentMethod'']"

definition min_max_scale_cols :: "string list" where
  "min_max_scale_cols = [''tenure'', ''MonthlyCharges'', ''TotalCharges'']"

text \<open>Lines 34 and 35: the loop that strips the categorical columns.\<close>

fun strip_loop :: "string list \<Rightarrow> 'f frame \<Rightarrow> 'f error + 'f frame" where
  "strip_loop [] df = Inr df"
| "strip_loop (col # cols) df =
     and_then (getitem df col) (\<lambda>c.
     and_then (str_strip c) (\<lambda>c'.
     strip_loop cols (df(col \<mapsto> c'))))"

text \<open>
  Line 38: the numeric columns become floats; the first cell that does not convert
  raises. Line 39: missing values are filled with the mean of their column. The line
  reads the three columns back: they hold floats since line 38, and converting a
  float is the identity.
\<close>

definition to_numeric :: "'f runtime \<Rightarrow> string list \<Rightarrow> 'f frame \<Rightarrow> 'f error + 'f frame" where
  "to_numeric R cols df =
     and_then (getitems df cols) (\<lambda>cells.
     and_then (traverse (astype_float R) (map replace_space cells)) (\<lambda>xs.
     Inr (setitems df cols (map PFloat xs))))"

definition fill_mean :: "'f runtime \<Rightarrow> string list \<Rightarrow> 'f frame \<Rightarrow> 'f error + 'f frame" where
  "fill_mean R cols df =
     and_then (getitems df cols) (\<lambda>cells.
     and_then (traverse (astype_float R) cells) (\<lambda>xs.
     Inr (setitems df cols (map (\<lambda>x. PFloat (fillna x (column_mean x))) xs))))"

text \<open>Lines 42 to 44: the loop that label-encodes.\<close>

fun label_loop :: "'f artifacts \<Rightarrow> string list \<Rightarrow> 'f frame \<Rightarrow> 'f error + 'f frame" where
  "label_loop A [] df = Inr df"
| "label_loop A (col # cols) df =
     (case label_encoders A col of
        None \<Rightarrow> Inl (KeyError col)
      | Some le \<Rightarrow>
          and_then (getitem df col) (\<lambda>c.
          and_then (le_transform le c) (\<lambda>code.
          label_loop A cols (df(col \<mapsto> PInt code)))))"

text \<open>
  Line 54: \<^verbatim>\<open>numpy.hstack\<close> of the label columns (integers, converted to the float type
  of the other two blocks), the scaled block and the one-hot block. The label columns
  hold the codes of line 44 when the line runs, an \<^verbatim>\<open>int64\<close> column each, whose cast to
  doubles does not raise; for another cell the model gives what \<^verbatim>\<open>astype(float)\<close> gives.
\<close>

definition values_float :: "'f runtime \<Rightarrow> 'f cell \<Rightarrow> 'f error + 'f pyfloat" where
  "values_float R c = (case c of PInt i \<Rightarrow> Inr (Num (f_of_int R i)) | _ \<Rightarrow> astype_float R c)"

definition hstack ::
  "'f runtime \<Rightarrow> 'f cell list \<Rightarrow> 'f pyfloat list \<Rightarrow> 'f pyfloat list \<Rightarrow> 'f error + 'f pyfloat list" where
  "hstack R labels scaled_numerical one_hot_encoded =
     and_then (traverse (values_float R) labels) (\<lambda>xs.
     Inr (xs @ scaled_numerical @ one_hot_encoded))"

text \<open>The body of \<^verbatim>\<open>preprocess_data\<close> up to the print: the frame and the row.\<close>

definition encode ::
  "'f runtime \<Rightarrow> 'f artifacts \<Rightarrow> 'f frame \<Rightarrow> 'f error + ('f frame \<times> 'f pyfloat list)" where
  "encode R A data =
     and_then (strip_loop (label_encode_cols @ one_hot_encode_cols) data) (\<lambda>df.
     and_then (to_numeric R min_max_scale_cols df) (\<lambda>df.
     and_then (fill_mean R min_max_scale_cols df) (\<lambda>df.
     and_then (label_loop A label_encode_cols df) (\<lambda>df.
     and_then (getitems df one_hot_encode_cols) (\<lambda>cats.
     and_then (ohe_transform R (one_hot_encoder A) cats) (\<lambda>one_hot_encoded.
     and_then (getitems df min_max_scale_cols) (\<lambda>nums.
     and_then (mms_transform R (min_max_scaler A) nums) (\<lambda>scaled_numerical.
     and_then (getitems df label_encode_cols) (\<lambda>labels.
     and_then (hstack R labels scaled_numerical one_hot_encoded) (\<lambda>X_processed.
     Inr (df, X_processed)))))))))))"

text \<open>
  What the process prints: the frame (\<^verbatim>\<open>print(df.head())\<close>, line 55) and the line of
  the exception handler (line 100).
\<close>

datatype 'f printed = DfHead "'f frame" | ErrorDuringPrediction "'f error"

definition preprocess_data ::
  "'f runtime \<Rightarrow> 'f artifacts \<Rightarrow> 'f frame \<Rightarrow> 'f printed list
     \<Rightarrow> ('f error + 'f pyfloat list) \<times> 'f printed list" where
  "preprocess_data R A data out =
     (case encode R A data of
        Inl e \<Rightarrow> (Inl e, out)
      | Inr (df, X_processed) \<Rightarrow> (Inr X_processed, out @ [DfHead df]))"

subsection \<open>The prediction service\<close>

definition make_data ::
  "'f cell \<Rightarrow> 'f cell \<Rightarrow> 'f cell \<Rightarrow> 'f cell \<Rightarrow> 'f cell \<Rightarrow> 'f cell \<Rightarrow> 'f cell \<Rightarrow> 'f cell \<Rightarrow> 'f cell
     \<Rightarrow> 'f cell \<Rightarrow> 'f cell \<Rightarrow> 'f cell \<Rightarrow> 'f cell \<Rightarrow> 'f cell \<Rightarrow> 'f cell \<Rightarrow> 'f cell \<Rightarrow> 'f cell
     \<Rightarrow> 'f cell \<Rightarrow> 'f cell \<Rightarrow> 'f frame" where
  "make_data gender senior_citizen partner dependents tenure phone_service multiple_lines
     internet_service online_security online_backup device_protection tech_support
     streaming_tv streaming_movies contract paperless_billing payment_method
     monthly_charges total_charges =
     map_of
       [(''gender'', gender), (''SeniorCitizen'', senior_citizen), (''Partner'', partner),
        (''Dependents'', dependents), (''tenure'', tenure), (''PhoneService'', phone_service),
        (''MultipleLines'', multiple_lines), (''InternetService'', internet_service),
        (''OnlineSecurity'', online_security), (''OnlineBackup'', online_backup),
        (''DeviceProtection'', device_protection), (''TechSupport'', tech_support),
        (''StreamingTV'', streaming_tv), (''StreamingMovies'', streaming_movies),
        (''Contract'', contract), (''PaperlessBilling'', paperless_billing),
        (''PaymentMethod'', payment_method), (''MonthlyCharges'', monthly_charges),
        (''TotalCharges'', total_charges)]"

text \<open>The try block (lines 95 to 98) on a dictionary, and its handler (lines 99 to 101).\<close>

definition try_body ::
  "'f runtime \<Rightarrow> 'f artifacts \<Rightarrow> 'f frame \<Rightarrow> 'f printed list
     \<Rightarrow> ('f error + string) \<times> 'f printed list" where
  "try_body R A data out =
     (case preprocess_data R A data out of
        (r, out') \<Rightarrow>
          (and_then r (\<lambda>X_new.
           and_then (model A X_new) (\<lambda>prediction.
           and_then (inverse_transform (le_target A) prediction) (\<lambda>label.
           Inr (if label = ''Yes'' then ''Churn'' else ''No Churn'')))), out'))"

definition predict_data ::
  "'f runtime \<Rightarrow> 'f artifacts \<Rightarrow> 'f frame \<Rightarrow> 'f printed list \<Rightarrow> string \<times> 'f printed list" where
  "predict_data R A data out =
     (case try_body R A data out of
        (Inr s, out') \<Rightarrow> (s, out')
      | (Inl e, out') \<Rightarrow> (str_exc R e, out' @ [ErrorDuringPrediction e]))"

definition predict ::
  "'f runtime \<Rightarrow> 'f artifacts \<Rightarrow>
     'f cell \<Rightarrow> 'f cell \<Rightarrow> 'f cell \<Rightarrow> 'f cell \<Rightarrow> 'f cell \<Rightarrow> 'f cell \<Rightarrow> 'f cell \<Rightarrow> 'f cell \<Rightarrow> 'f cell
     \<Rightarrow> 'f cell \<Rightarrow> 'f cell \<Rightarrow> 'f cell \<Rightarrow> 'f cell \<Rightarrow> 'f cell \<Rightarrow> 'f cell \<Rightarrow> 'f cell \<Rightarrow> 'f cell
     \<Rightarrow> 'f cell \<Rightarrow> 'f cell \<Rightarrow> 'f printed list \<Rightarrow> string \<times> 'f printed list" where
  "predict R A gender senior_citizen partner dependents tenure phone_service multiple_lines
     internet_service online_security online_backup device_protection tech_support
     streaming_tv streaming_movies contract paperless_billing payment_method
     monthly_charges total_charges out =
     predict_data R A
       (make_data gender senior_citizen partner dependents tenure phone_service
          multiple_lines internet_service online_security online_backup device_protection
          tech_support streaming_tv streaming_movies contract paperless_billing
          payment_method monthly_charges total_charges) out"

subsection \<open>The encoder on a heap of objects\<close>

text \<open>
  The functions above take the dictionary and the transformers as values. In the
  program they are objects: \<^verbatim>\<open>data\<close> is a reference to a dictionary, the five
  transformers are module-level names (lines 8 to 12), and line 25 creates a new
  object, the \<^verbatim>\<open>DataFrame\<close>, which lines 35, 38, 39 and 44 assign to. This part
  repeats \<^verbatim>\<open>preprocess_data\<close> statement by statement on a heap, so that what a call
  leaves behind for the next one is part of its result.

  A heap has the objects by address (a dictionary and a one-row frame are both a map
  from names to cells), the next free address, the module-level names and the
  standard output. A statement takes a heap and returns a value or an exception
  together with the heap it leaves. \<open>DataFrame data\<close> copies the items of the
  dictionary into a new object; \<open>df_setitem\<close> is \<^verbatim>\<open>df[col] = v\<close>, an assignment
  inside the object \<open>df\<close>; \<open>read_globals\<close> reads the module-level names.

  No statement of \<^verbatim>\<open>preprocess_data\<close> assigns to a module-level name or to an
  attribute of a transformer. The \<^verbatim>\<open>transform\<close> methods are library code: they are
  the functions of the fitted attributes defined above, which return a new array and
  leave the transformer as it is (scikit-learn's contract for \<^verbatim>\<open>transform\<close>).
\<close>

record 'f heap =
  objects :: "nat \<Rightarrow> 'f frame"
  next_addr :: nat
  globals :: "'f artifacts"
  stdout :: "'f printed list"

type_synonym ('f, 'a) prog = "'f heap \<Rightarrow> ('f error + 'a) \<times> 'f heap"

definition evaluate :: "'f error + 'a \<Rightarrow> ('f, 'a) prog" where
  "evaluate r h = (r, h)"

definition then_do :: "('f, 'a) prog \<Rightarrow> ('a \<Rightarrow> ('f, 'b) prog) \<Rightarrow> ('f, 'b) prog" where
  "then_do m f h = (case m h of (Inl e, h') \<Rightarrow> (Inl e, h') | (Inr x, h') \<Rightarrow> f x h')"

definition read_globals :: "('f artifacts \<Rightarrow> 'f error + 'a) \<Rightarrow> ('f, 'a) prog" where
  "read_globals f h = (f (globals h), h)"

definition DataFrame :: "nat \<Rightarrow> ('f, nat) prog" where
  "DataFrame p h =
     (Inr (next_addr h),
      h\<lparr>objects := (objects h)(next_addr h := objects h p), next_addr := Suc (next_addr h)\<rparr>)"

definition df_getitem :: "nat \<Rightarrow> string \<Rightarrow> ('f, 'f cell) prog" where
  "df_getitem df col h = (getitem (objects h df) col, h)"

definition df_getitems :: "nat \<Rightarrow> string list \<Rightarrow> ('f, 'f cell list) prog" where
  "df_getitems df cols h = (getitems (objects h df) cols, h)"

definition df_setitem :: "nat \<Rightarrow> string \<Rightarrow> 'f cell \<Rightarrow> ('f, unit) prog" where
  "df_setitem df col v h = (Inr (), h\<lparr>objects := (objects h)(df := (objects h df)(col \<mapsto> v))\<rparr>)"

definition df_setitems :: "nat \<Rightarrow> string list \<Rightarrow> 'f cell list \<Rightarrow> ('f, unit) prog" where
  "df_setitems df cols vs h =
     (Inr (), h\<lparr>objects := (objects h)(df := setitems (objects h df) cols vs)\<rparr>)"

definition print_head :: "nat \<Rightarrow> ('f, unit) prog" where
  "print_head df h = (Inr (), h\<lparr>stdout := stdout h @ [DfHead (objects h df)]\<rparr>)"

text \<open>Lines 34 and 35, lines 38 and 39, lines 42 to 44, on the object \<open>df\<close>.\<close>

fun strip_loop_heap :: "string list \<Rightarrow> nat \<Rightarrow> ('f, unit) prog" where
  "strip_loop_heap [] df h = (Inr (), h)"
| "strip_loop_heap (col # cols) df h =
     then_do (df_getitem df col) (\<lambda>c.
     then_do (evaluate (str_strip c)) (\<lambda>c'.
     then_do (df_setitem df col c') (\<lambda>_.
     strip_loop_heap cols df))) h"

definition to_numeric_heap :: "'f runtime \<Rightarrow> string list \<Rightarrow> nat \<Rightarrow> ('f, unit) prog" where
  "to_numeric_heap R cols df =
     then_do (df_getitems df cols) (\<lambda>cells.
     then_do (evaluate (traverse (astype_float R) (map replace_space cells))) (\<lambda>xs.
     df_setitems df cols (map PFloat xs)))"

definition fill_mean_heap :: "'f runtime \<Rightarrow> string list \<Rightarrow> nat \<Rightarrow> ('f, unit) prog" where
  "fill_mean_heap R cols df =
     then_do (df_getitems df cols) (\<lambda>cells.
     then_do (evaluate (traverse (astype_float R) cells)) (\<lambda>xs.
     df_setitems df cols (map (\<lambda>x. PFloat (fillna x (column_mean x))) xs)))"

definition label_encoder_of :: "string \<Rightarrow> 'f artifacts \<Rightarrow> 'f error + string list" where
  "label_encoder_of col A =
     (case label_encoders A col of None \<Rightarrow> Inl (KeyError col) | Some le \<Rightarrow> Inr le)"

fun label_loop_heap :: "string list \<Rightarrow> nat \<Rightarrow> ('f, unit) prog" where
  "label_loop_heap [] df h = (Inr (), h)"
| "label_loop_heap (col # cols) df h =
     then_do (read_globals (label_encoder_of col)) (\<lambda>le.
     then_do (df_getitem df col) (\<lambda>c.
     then_do (evaluate (le_transform le c)) (\<lambda>code.
     then_do (df_setitem df col (PInt code)) (\<lambda>_.
     label_loop_heap cols df)))) h"

text \<open>\<^verbatim>\<open>preprocess_data(data)\<close>, lines 25 to 56; \<open>data\<close> is the address of the dictionary.\<close>

definition preprocess_data_heap :: "'f runtime \<Rightarrow> nat \<Rightarrow> ('f, 'f pyfloat list) prog" where
  "preprocess_data_heap R data =
     then_do (DataFrame data) (\<lambda>df.
     then_do (strip_loop_heap (label_encode_cols @ one_hot_encode_cols) df) (\<lambda>_.
     then_do (to_numeric_heap R min_max_scale_cols df) (\<lambda>_.
     then_do (fill_mean_heap R min_max_scale_cols df) (\<lambda>_.
     then_do (label_loop_heap label_encode_cols df) (\<lambda>_.
     then_do (df_getitems df one_hot_encode_cols) (\<lambda>cats.
     then_do (read_globals (\<lambda>A. ohe_transform R (one_hot_encoder A) cats)) (\<lambda>one_hot_encoded.
     then_do (df_getitems df min_max_scale_cols) (\<lambda>nums.
     then_do (read_globals (\<lambda>A. mms_transform R (min_max_scaler A) nums)) (\<lambda>scaled_numerical.
     then_do (df_getitems df label_encode_cols) (\<lambda>labels.
     then_do (evaluate (hstack R labels scaled_numerical one_hot_encoded)) (\<lambda>X_processed.
     then_do (print_head df) (\<lambda>_.
     evaluate (Inr X_processed)))))))))))))"

subsection \<open>The declared domains\<close>

text \<open>
  The choices of the form (the \<^verbatim>\<open>gr.Radio\<close> inputs, lines 105 to 121), by column name.
  A number is in its domain when it is a non-negative integer within the range of
  doubles, or a float that is neither NaN nor an infinity (the sign of a float is not
  visible to the model; it plays no role below). \<open>valid_record\<close> says that every field of a dictionary is
  within its domain.
\<close>

definition yes_no_cols :: "string list" where
  "yes_no_cols = [''Partner'', ''Dependents'', ''PhoneService'', ''PaperlessBilling'']"

definition internet_cols :: "string list" where
  "internet_cols =
     [''OnlineSecurity'', ''OnlineBackup'', ''DeviceProtection'', ''TechSupport'',
      ''StreamingTV'', ''StreamingMovies'']"

definition domain :: "string \<Rightarrow> string list" where
  "domain col =
     (if col = ''gender'' then [''Female'', ''Male'']
      else if col \<in> set yes_no_cols then [''Yes'', ''No'']
      else if col = ''MultipleLines'' then [''Yes'', ''No'', ''No phone service'']
      else if col = ''InternetService'' then [''DSL'', ''Fiber optic'', ''No'']
      else if col \<in> set internet_cols then [''Yes'', ''No'', ''No internet service'']
      else if col = ''Contract'' then [''Month-to-month'', ''One year'', ''Two year'']
      else if col = ''PaymentMethod''
      then [''Electronic check'', ''Mailed check'', ''Bank transfer (automatic)'',
            ''Credit card (automatic)'']
      else [])"

definition valid_category :: "'f frame \<Rightarrow> string \<Rightarrow> bool" where
  "valid_category data col =
     (case data col of Some (PStr s) \<Rightarrow> s \<in> set (domain col) | _ \<Rightarrow> False)"

definition valid_number :: "'f runtime \<Rightarrow> 'f frame \<Rightarrow> string \<Rightarrow> bool" where
  "valid_number R data col =
     (case data col of
        Some (PInt i) \<Rightarrow> 0 \<le> i \<and> \<not> f_isinf R (f_of_int R i)
      | Some (PFloat (Num v)) \<Rightarrow> \<not> f_isinf R v
      | _ \<Rightarrow> False)"

definition valid_record :: "'f runtime \<Rightarrow> 'f frame \<Rightarrow> bool" where
  "valid_record R data \<longleftrightarrow>
     list_all (valid_category data) (label_encode_cols @ one_hot_encode_cols) \<and>
     list_all (valid_number R data) min_max_scale_cols \<and>
     (data ''SeniorCitizen'' = Some (PInt 0) \<or> data ''SeniorCitizen'' = Some (PInt 1))"

text \<open>
  The transformers fit the domains: each label encoder and each column of the
  one-hot encoder knows the values of its field, and the scaler has three columns.
\<close>

definition fitted :: "'f artifacts \<Rightarrow> bool" where
  "fitted A \<longleftrightarrow>
     list_all (\<lambda>col. case label_encoders A col of
                       Some classes \<Rightarrow> set (domain col) \<subseteq> set classes
                     | None \<Rightarrow> False) label_encode_cols \<and>
     list_all2 (\<lambda>col cats. set (domain col) \<subseteq> set cats)
       one_hot_encode_cols (one_hot_encoder A) \<and>
     length (scaler_cols (min_max_scaler A)) = length min_max_scale_cols"



subsection \<open>Auxiliary definitions for the proofs\<close>

text \<open>
  Both \<^verbatim>\<open>for\<close> statements of the encoder have the shape ``for each column, replace the cell by a
  function of it''; \<open>col_loop\<close> is that shape. \<open>keep\<close> writes one cell into the
  frame of a result.
\<close>

fun col_loop ::
  "(string \<Rightarrow> 'f cell \<Rightarrow> 'f error + 'f cell) \<Rightarrow> string list \<Rightarrow> 'f frame \<Rightarrow> 'f error + 'f frame" where
  "col_loop f [] df = Inr df"
| "col_loop f (col # cols) df =
     and_then (getitem df col) (\<lambda>c.
     and_then (f col c) (\<lambda>c'.
     col_loop f cols (df(col \<mapsto> c'))))"

definition label_cell :: "'f artifacts \<Rightarrow> string \<Rightarrow> 'f cell \<Rightarrow> 'f error + 'f cell" where
  "label_cell A col c =
     (case label_encoders A col of
        None \<Rightarrow> Inl (KeyError col)
      | Some le \<Rightarrow> and_then (le_transform le c) (\<lambda>code. Inr (PInt code)))"

definition keep :: "string \<Rightarrow> 'f cell \<Rightarrow> 'f error + 'f frame \<Rightarrow> 'f error + 'f frame" where
  "keep c v r = (case r of Inl e \<Rightarrow> Inl e | Inr df \<Rightarrow> Inr (df(c \<mapsto> v)))"

subsection \<open>A concrete instance\<close>

text \<open>
  For the examples, floats are replaced by rationals with exact arithmetic and no
  infinity; \<^verbatim>\<open>float\<close> parses strings of decimal digits only. The transformers are what
  fitting on the domains above gives (scikit-learn sorts the categories), with scaler
  ranges \<open>0..72\<close>, \<open>18..118\<close> and \<open>0..8000\<close>; the classifier refuses NaN and a row of
  the wrong width, as scikit-learn's input validation does, and otherwise answers
  class 1 when the scaled tenure is below one half.
\<close>

definition parse_digits :: "string \<Rightarrow> rat pyfloat option" where
  "parse_digits s =
     (if s \<noteq> [] \<and> list_all (\<lambda>c. 48 \<le> (of_char c :: nat) \<and> (of_char c :: nat) \<le> 57) s
      then Some (Num (of_nat (foldl (\<lambda>n c. 10 * n + (of_char c - 48)) 0 s)))
      else None)"

fun example_str :: "rat error \<Rightarrow> string" where
  "example_str (KeyError c) = c"
| "example_str (AttributeError m) = m"
| "example_str (CouldNotConvert s) = ''could not convert string to float: '' @ s"
| "example_str (OverflowError i) = ''int too large to convert to float''"
| "example_str (UnseenLabels c) = ''y contains previously unseen labels''"
| "example_str (UnknownCategories c i) = ''Found unknown categories''"
| "example_str (FeatureCountMismatch n m) = ''X has another number of features''"
| "example_str InputContainsInfinity = ''Input X contains infinity''"
| "example_str (UnseenClassIndex y) = ''y contains previously unseen labels''"
| "example_str (ModelError m) = m"

definition example_runtime :: "rat runtime" where
  "example_runtime =
     \<lparr>f_of_int = rat_of_int,
      f_mul = (\<lambda>x y. Num (x * y)),
      f_add = (\<lambda>x y. Num (x + y)),
      f_isinf = (\<lambda>x. False),
      f_clip = (\<lambda>v lo hi. min (max v lo) hi),
      f_parse = parse_digits,
      str_exc = example_str\<rparr>"

definition example_scaler :: "rat scaler" where
  "example_scaler =
     \<lparr>scaler_cols =
        [\<lparr>data_min = 0, data_max = 72, scaler_scale = 1 / 72, scaler_min = 0\<rparr>,
         \<lparr>data_min = 18, data_max = 118, scaler_scale = 1 / 100, scaler_min = - (9 / 50)\<rparr>,
         \<lparr>data_min = 0, data_max = 8000, scaler_scale = 1 / 8000, scaler_min = 0\<rparr>],
      clip = False,
      feature_range = (0, 1)\<rparr>"

definition is_nan :: "'f pyfloat \<Rightarrow> bool" where
  "is_nan x = (case x of NaN \<Rightarrow> True | Num v \<Rightarrow> False)"

definition example_model :: "rat pyfloat list \<Rightarrow> rat error + int" where
  "example_model X =
     (if list_ex is_nan X then Inl (ModelError ''Input X contains NaN.'')
      else if length X \<noteq> 39 then Inl (FeatureCountMismatch (length X) 39)
      else (case X ! 5 of Num t \<Rightarrow> Inr (if t < 1 / 2 then 1 else 0) | NaN \<Rightarrow> Inr 0))"

definition example_artifacts :: "rat artifacts" where
  "example_artifacts =
     \<lparr>label_encoders =
        map_of
          [(''Partner'', [''No'', ''Yes'']), (''Dependents'', [''No'', ''Yes'']),
           (''PhoneService'', [''No'', ''Yes'']), (''PaperlessBilling'', [''No'', ''Yes'']),
           (''gender'', [''Female'', ''Male''])],
      one_hot_encoder =
        [ [''No'', ''No phone service'', ''Yes''],
         [''DSL'', ''Fiber optic'', ''No''],
         [''No'', ''No internet service'', ''Yes''],
         [''No'', ''No internet service'', ''Yes''],
         [''No'', ''No internet service'', ''Yes''],
         [''No'', ''No internet service'', ''Yes''],
         [''No'', ''No internet service'', ''Yes''],
         [''No'', ''No internet service'', ''Yes''],
         [''Month-to-month'', ''One year'', ''Two year''],
         [''Bank transfer (automatic)'', ''Credit card (automatic)'', ''Electronic check'',
          ''Mailed check'']],
      min_max_scaler = example_scaler,
      model = example_model,
      le_target = [''No'', ''Yes'']\<rparr>"

text \<open>
  The customer of the spec's scenario, with the internet service and the total
  charges left open (the scenario has \<^verbatim>\<open>"DSL"\<close> and \<^verbatim>\<open>600.0\<close>).
\<close>

definition example_data :: "rat cell \<Rightarrow> rat cell \<Rightarrow> rat frame" where
  "example_data internet_service total_charges =
     make_data (PStr ''Female'') (PInt 0) (PStr ''Yes'') (PStr ''No'') (PInt 12)
       (PStr ''Yes'') (PStr ''No'') internet_service (PStr ''Yes'') (PStr ''No'') (PStr ''No'')
       (PStr ''No'') (PStr ''No'') (PStr ''No'') (PStr ''One year'') (PStr ''No'')
       (PStr ''Mailed check'') (PFloat (Num 50)) total_charges"

definition example_row :: "rat pyfloat \<Rightarrow> rat pyfloat list" where
  "example_row x =
     map Num [1, 0, 1, 0, 0] @ [Num (1 / 6), Num (8 / 25), x] @
     map Num [1, 0, 0,  1, 0, 0,  0, 0, 1,  1, 0, 0,  1, 0, 0,  1, 0, 0,  1, 0, 0,  1, 0, 0,
              0, 1, 0,  0, 0, 0, 1]"

subsection \<open>The row the spec describes\<close>

text \<open>
  The feature vector in the spec's words: the label codes as floats, then the scaled
  numbers, then the one-hot blocks, for given codes, numbers and positions.
\<close>

definition spec_feature_vector ::
  "'f runtime \<Rightarrow> 'f artifacts \<Rightarrow> nat list \<Rightarrow> 'f pyfloat list \<Rightarrow> nat list \<Rightarrow> 'f pyfloat list" where
  "spec_feature_vector R A codes nums ks =
     map (\<lambda>i. Num (f_of_int R (int i))) codes
     @ map2 (scale_value R (min_max_scaler A)) (scaler_cols (min_max_scaler A)) nums
     @ concat (map2 (\<lambda>cats k. one_hot R (length cats) k) (one_hot_encoder A) ks)"

subsection \<open>Further auxiliary definitions\<close>

text \<open>
  \<open>all_values\<close> lists the strings of the domains. \<open>reaches_label_encoding\<close> says that
  the statements before the label encoding (lines 34 to 39) succeed on a dictionary,
  that the label encoders of the five columns are there and that the one-hot encoder
  has ten columns: the fifteen categorical cells are strings and the three numeric
  cells convert to floats.
\<close>

definition all_values :: "string list" where
  "all_values =
     [''Female'', ''Male'', ''Yes'', ''No'', ''No phone service'', ''DSL'', ''Fiber optic'',
      ''No internet service'', ''Month-to-month'', ''One year'', ''Two year'',
      ''Electronic check'', ''Mailed check'', ''Bank transfer (automatic)'',
      ''Credit card (automatic)'']"




text \<open>
  \<open>example_predict\<close> is \<^verbatim>\<open>predict\<close> on the customer of the scenario.
  \<open>degenerate_artifacts\<close> has a scaler fitted on data whose tenure is always 12:
  minimum and maximum are equal, and fitting sets the scale to 1 and the offset to
  \<open>- 12\<close>.
\<close>

definition example_predict :: "rat artifacts \<Rightarrow> rat cell \<Rightarrow> rat cell \<Rightarrow> string" where
  "example_predict A internet_service total_charges =
     fst (predict example_runtime A
        (PStr ''Female'') (PInt 0) (PStr ''Yes'') (PStr ''No'') (PInt 12)
        (PStr ''Yes'') (PStr ''No'') internet_service (PStr ''Yes'') (PStr ''No'') (PStr ''No'')
        (PStr ''No'') (PStr ''No'') (PStr ''No'') (PStr ''One year'') (PStr ''No'')
        (PStr ''Mailed check'') (PFloat (Num 50)) total_charges [])"

definition degenerate_artifacts :: "rat artifacts" where
  "degenerate_artifacts =
     example_artifacts
       \<lparr>min_max_scaler :=
          example_scaler
            \<lparr>scaler_cols :=
               [\<lparr>data_min = 12, data_max = 12, scaler_scale = 1, scaler_min = - 12\<rparr>,
                \<lparr>data_min = 18, data_max = 118, scaler_scale = 1 / 100, scaler_min = - (9 / 50)\<rparr>,
                \<lparr>data_min = 0, data_max = 8000, scaler_scale = 1 / 8000, scaler_min = 0\<rparr>]\<rparr>\<rparr>"

text \<open>
  \<open>with_range lo hi A\<close> is \<open>A\<close> with the fitted minimum and maximum of every column
  \<open>c\<close> of the scaler replaced by \<open>lo c\<close> and \<open>hi c\<close>; scale and offset stay.
\<close>

definition with_range ::
  "('f scaler_col \<Rightarrow> 'f) \<Rightarrow> ('f scaler_col \<Rightarrow> 'f) \<Rightarrow> 'f artifacts \<Rightarrow> 'f artifacts" where
  "with_range lo hi A =
     A\<lparr>min_max_scaler :=
         (min_max_scaler A)
           \<lparr>scaler_cols :=
              map (\<lambda>c. c\<lparr>data_min := lo c, data_max := hi c\<rparr>)
                (scaler_cols (min_max_scaler A))\<rparr>\<rparr>"

text \<open>
  For the proofs about the heap: \<open>put_frame\<close> overwrites one object,
  \<open>strip_frame\<close> and \<open>label_frame\<close> are the frame that the two loops leave behind,
  also when they raise half-way, and \<open>encode_tail\<close> and \<open>heap_tail\<close> are lines 48 to
  55 of the encoder, on a frame and on the heap. \<open>example_heap\<close> holds the customer of
  the scenario at address 0 and the transformers of the example.
\<close>

definition put_frame :: "nat \<Rightarrow> 'f frame \<Rightarrow> 'f heap \<Rightarrow> 'f heap" where
  "put_frame df c h = h\<lparr>objects := (objects h)(df := c)\<rparr>"

fun strip_frame :: "string list \<Rightarrow> 'f frame \<Rightarrow> 'f frame" where
  "strip_frame [] c = c"
| "strip_frame (col # cols) c =
     (case and_then (getitem c col) str_strip of
        Inl e \<Rightarrow> c
      | Inr v \<Rightarrow> strip_frame cols (c(col \<mapsto> v)))"

fun label_frame :: "'f artifacts \<Rightarrow> string list \<Rightarrow> 'f frame \<Rightarrow> 'f frame" where
  "label_frame A [] c = c"
| "label_frame A (col # cols) c =
     (case and_then (label_encoder_of col A) (\<lambda>le.
           and_then (getitem c col) (le_transform le)) of
        Inl e \<Rightarrow> c
      | Inr code \<Rightarrow> label_frame A cols (c(col \<mapsto> PInt code)))"

definition encode_tail ::
  "'f runtime \<Rightarrow> 'f artifacts \<Rightarrow> 'f frame \<Rightarrow> 'f error + 'f pyfloat list" where
  "encode_tail R A df =
     and_then (getitems df one_hot_encode_cols) (\<lambda>cats.
     and_then (ohe_transform R (one_hot_encoder A) cats) (\<lambda>one_hot_encoded.
     and_then (getitems df min_max_scale_cols) (\<lambda>nums.
     and_then (mms_transform R (min_max_scaler A) nums) (\<lambda>scaled_numerical.
     and_then (getitems df label_encode_cols) (\<lambda>labels.
     hstack R labels scaled_numerical one_hot_encoded)))))"

definition heap_tail :: "'f runtime \<Rightarrow> nat \<Rightarrow> ('f, 'f pyfloat list) prog" where
  "heap_tail R df =
     then_do (df_getitems df one_hot_encode_cols) (\<lambda>cats.
     then_do (read_globals (\<lambda>A. ohe_transform R (one_hot_encoder A) cats)) (\<lambda>one_hot_encoded.
     then_do (df_getitems df min_max_scale_cols) (\<lambda>nums.
     then_do (read_globals (\<lambda>A. mms_transform R (min_max_scaler A) nums)) (\<lambda>scaled_numerical.
     then_do (df_getitems df label_encode_cols) (\<lambda>labels.
     then_do (evaluate (hstack R labels scaled_numerical one_hot_encoded)) (\<lambda>X_processed.
     then_do (print_head df) (\<lambda>_.
     evaluate (Inr X_processed))))))))"

definition example_heap :: "rat heap" where
  "example_heap =
     \<lparr>objects = (\<lambda>a. Map.empty)(0 := example_data (PStr ''DSL'') (PFloat (Num 600))),
      next_addr = 1,
      globals = example_artifacts,
      stdout = []\<rparr>"

section \<open>Lemmas about the operations\<close>

subsection \<open>Results, strings and frames\<close>

lemma and_then_Inl [simp]: "and_then (Inl e) f = Inl e"
  by (simp add: and_then_def)

lemma and_then_Inr [simp]: "and_then (Inr x) f = f x"
  by (simp add: and_then_def)

lemma and_then_eq_Inr:
  "and_then m f = Inr y \<longleftrightarrow> (\<exists>x. m = Inr x \<and> f x = Inr y)"
  by (cases m) simp_all

lemma dropWhile_pad: "\<forall>c\<in>set l. P c \<Longrightarrow> dropWhile P (l @ xs) = dropWhile P xs"
  by (induction l) simp_all

lemma strip_pad:
  assumes l: "\<forall>c\<in>set l. is_space c" and r: "\<forall>c\<in>set r. is_space c"
  shows "strip (l @ v @ r) = strip v"
proof (cases "\<forall>c\<in>set v. is_space c")
  case True
  then have "dropWhile is_space (l @ v @ r) = []" "dropWhile is_space v = []"
    using l r by auto
  then show ?thesis by (simp only: strip_def rev.simps dropWhile.simps)
next
  case False
  then obtain c where c: "c \<in> set v" "\<not> is_space c" by blast
  have "dropWhile is_space (l @ v @ r) = dropWhile is_space (v @ r)"
    using l by (rule dropWhile_pad)
  also have "\<dots> = dropWhile is_space v @ r"
    using c by (rule dropWhile_append1)
  finally have "rev (dropWhile is_space (l @ v @ r)) = rev r @ rev (dropWhile is_space v)"
    by simp
  moreover have "\<forall>c\<in>set (rev r). is_space c" using r by simp
  ultimately show ?thesis
    by (simp only: strip_def dropWhile_pad)
qed

lemma getitem_upd_other: "c \<noteq> col \<Longrightarrow> getitem (df(c \<mapsto> v)) col = getitem df col"
  by (simp add: getitem_def)

lemma traverse_cong: "(\<And>x. x \<in> set xs \<Longrightarrow> f x = g x) \<Longrightarrow> traverse f xs = traverse g xs"
  by (induction xs) simp_all

lemma getitems_upd_other: "c \<notin> set cols \<Longrightarrow> getitems (df(c \<mapsto> v)) cols = getitems df cols"
  unfolding getitems_def by (rule traverse_cong) (auto simp: getitem_def)

lemma setitems_upd_other:
  "c \<notin> set cols \<Longrightarrow> setitems (df(c \<mapsto> v)) cols xs = (setitems df cols xs)(c \<mapsto> v)"
  by (induction cols arbitrary: df xs) (auto simp: fun_upd_twist [of c] split: list.split)

lemma keep_simps [simp]: "keep c v (Inl e) = Inl e" "keep c v (Inr df) = Inr (df(c \<mapsto> v))"
  by (simp_all add: keep_def)

lemma keep_and_then: "keep c v (and_then m f) = and_then m (\<lambda>x. keep c v (f x))"
  by (cases m) simp_all

lemma strip_loop_upd_other:
  "c \<notin> set cols \<Longrightarrow> strip_loop cols (df(c \<mapsto> v)) = keep c v (strip_loop cols df)"
  by (induction cols arbitrary: df) (auto simp: getitem_upd_other keep_and_then fun_upd_twist [of c])

lemma label_loop_upd_other:
  "c \<notin> set cols \<Longrightarrow> label_loop A cols (df(c \<mapsto> v)) = keep c v (label_loop A cols df)"
  by (induction cols arbitrary: df)
    (auto simp: getitem_upd_other keep_and_then fun_upd_twist [of c] split: option.split)

lemma to_numeric_upd_other:
  "c \<notin> set cols \<Longrightarrow> to_numeric R cols (df(c \<mapsto> v)) = keep c v (to_numeric R cols df)"
  by (simp add: to_numeric_def getitems_upd_other setitems_upd_other keep_and_then)

lemma fill_mean_upd_other:
  "c \<notin> set cols \<Longrightarrow> fill_mean R cols (df(c \<mapsto> v)) = keep c v (fill_mean R cols df)"
  by (simp add: fill_mean_def getitems_upd_other setitems_upd_other keep_and_then)

lemma and_then_keep:
  "and_then (keep c v m) f = and_then m (\<lambda>df. f (df(c \<mapsto> v)))"
  by (cases m) simp_all

lemma encode_upd_other:
  assumes "c \<notin> set (label_encode_cols @ one_hot_encode_cols @ min_max_scale_cols)"
  shows "map_sum id snd (encode R A (data(c \<mapsto> v))) = map_sum id snd (encode R A data)"
proof -
  have 1: "c \<notin> set (label_encode_cols @ one_hot_encode_cols)" "c \<notin> set min_max_scale_cols"
    "c \<notin> set label_encode_cols" "c \<notin> set one_hot_encode_cols"
    using assms by auto
  show ?thesis
    unfolding encode_def
    apply (simp only: strip_loop_upd_other [OF 1(1)] and_then_keep to_numeric_upd_other [OF 1(2)]
      fill_mean_upd_other [OF 1(2)] label_loop_upd_other [OF 1(3)] getitems_upd_other [OF 1(2)]
      getitems_upd_other [OF 1(3)] getitems_upd_other [OF 1(4)])
    apply (auto simp: and_then_def split: sum.splits)
    done
qed

lemma strip_loop_col_loop: "strip_loop cols df = col_loop (\<lambda>col. str_strip) cols df"
  by (induction cols arbitrary: df) auto

lemma label_loop_col_loop: "label_loop A cols df = col_loop (label_cell A) cols df"
  by (induction cols arbitrary: df)
    (auto simp: label_cell_def getitem_def and_then_def split: option.split sum.split)

lemma traverse_eq_Inr:
  "traverse f xs = Inr ys \<longleftrightarrow> list_all2 (\<lambda>x y. f x = Inr y) xs ys"
proof (induction xs arbitrary: ys)
  case Nil
  show "traverse f [] = Inr ys \<longleftrightarrow> list_all2 (\<lambda>x y. f x = Inr y) [] ys" by auto
next
  case (Cons x xs)
  show "traverse f (x # xs) = Inr ys \<longleftrightarrow> list_all2 (\<lambda>x y. f x = Inr y) (x # xs) ys"
    by (cases ys) (auto simp: and_then_eq_Inr Cons.IH)
qed

lemma getitem_eq_Inr: "getitem df col = Inr c \<longleftrightarrow> df col = Some c"
  by (simp add: getitem_def split: option.split)

lemma getitems_eq_Inr:
  "getitems df cols = Inr cs \<longleftrightarrow> list_all2 (\<lambda>col c. df col = Some c) cols cs"
  by (simp add: getitems_def traverse_eq_Inr getitem_eq_Inr)

lemma setitems_other: "c \<notin> set cols \<Longrightarrow> setitems df cols ys c = df c"
  by (induction cols arbitrary: df ys) (auto split: list.split)

lemma setitems_nth:
  "distinct cols \<Longrightarrow> length ys = length cols \<Longrightarrow> i < length cols
     \<Longrightarrow> setitems df cols ys (cols ! i) = Some (ys ! i)"
proof (induction cols arbitrary: df ys i)
  case Nil
  then show "setitems df [] ys ([] ! i) = Some (ys ! i)" by simp
next
  case (Cons col cols)
  then obtain y ys' where ys: "ys = y # ys'" by (cases ys) auto
  show "setitems df (col # cols) ys ((col # cols) ! i) = Some (ys ! i)"
  proof (cases i)
    case 0
    then show ?thesis using Cons.prems ys by (simp add: setitems_other)
  next
    case (Suc j)
    have "setitems (df(col \<mapsto> y)) cols ys' (cols ! j) = Some (ys' ! j)"
      by (rule Cons.IH) (use Cons.prems ys Suc in auto)
    then show ?thesis using ys Suc by simp
  qed
qed

lemma getitems_setitems:
  assumes "distinct cols" "length ys = length cols"
  shows "getitems (setitems df cols ys) cols = Inr ys"
  unfolding getitems_eq_Inr list_all2_conv_all_nth
  using assms by (simp add: setitems_nth)

lemma getitems_setitems_other:
  "set cols' \<inter> set cols = {} \<Longrightarrow> getitems (setitems df cols ys) cols' = getitems df cols'"
  unfolding getitems_def
  by (rule traverse_cong) (auto simp: getitem_def setitems_other disjoint_iff)


lemma setitems_same: "getitems df cols = Inr ys \<Longrightarrow> setitems df cols ys = df"
proof (induction cols arbitrary: ys)
  case Nil
  show "setitems df [] ys = df" by simp
next
  case (Cons col cols)
  from Cons.prems obtain y ys' where ys: "ys = y # ys'" "df col = Some y"
    "getitems df cols = Inr ys'"
    by (auto simp: getitems_eq_Inr list_all2_Cons1)
  have "df(col \<mapsto> y) = df" using ys(2) by (rule map_upd_triv)
  then show "setitems df (col # cols) ys = df"
    using ys Cons.IH [of ys'] by simp
qed

lemma getitems_append:
  "getitems df (as @ bs) = Inr zs \<longleftrightarrow>
     (\<exists>xs ys. zs = xs @ ys \<and> getitems df as = Inr xs \<and> getitems df bs = Inr ys)"
  unfolding getitems_eq_Inr list_all2_append1 
  by (metis list_all2_lengthD)

lemma traverse_length: "traverse f xs = Inr ys \<Longrightarrow> length ys = length xs"
  by (simp add: traverse_eq_Inr list_all2_lengthD)

lemma traverse_map: "traverse f (map g xs) = traverse (\<lambda>x. f (g x)) xs"
  by (induction xs) simp_all

lemma traverse_Inr: "traverse Inr xs = Inr xs"
  by (induction xs) simp_all

lemma col_loop_traverse:
  "distinct cols \<Longrightarrow> list_all2 (\<lambda>col c. df col = Some c) cols cs \<Longrightarrow>
   col_loop f cols df =
     and_then (traverse (\<lambda>(col, c). f col c) (zip cols cs)) (\<lambda>ys. Inr (setitems df cols ys))"
proof (induction cols arbitrary: df cs)
  case Nil
  then show "col_loop f [] df =
     and_then (traverse (\<lambda>(col, c). f col c) (zip [] cs)) (\<lambda>ys. Inr (setitems df [] ys))"
    by simp
next
  case (Cons col cols)
  from Cons.prems obtain c cs' where cs: "cs = c # cs'" "df col = Some c"
    "list_all2 (\<lambda>col c. df col = Some c) cols cs'"
    by (auto simp: list_all2_Cons1)
  have d: "distinct cols" and n: "col \<notin> set cols" using Cons.prems by auto
  have rest: "\<And>y. list_all2 (\<lambda>col' c. (df(col \<mapsto> y)) col' = Some c) cols cs'"
    using cs(3) n by (auto simp: list_all2_conv_all_nth)
  have IH: "\<And>y. col_loop f cols (df(col \<mapsto> y)) =
     and_then (traverse (\<lambda>(col, c). f col c) (zip cols cs'))
       (\<lambda>ys. Inr (setitems (df(col \<mapsto> y)) cols ys))"
    by (rule Cons.IH [OF d rest])
  show "col_loop f (col # cols) df =
     and_then (traverse (\<lambda>(col, c). f col c) (zip (col # cols) cs))
       (\<lambda>ys. Inr (setitems df (col # cols) ys))"
    by (cases "f col c"; cases "traverse (\<lambda>(col, c). f col c) (zip cols cs')")
      (simp_all add: cs getitem_def IH)
qed

lemma fillna_column_mean [simp]: "fillna x (column_mean x) = x"
  by (cases x) (simp_all add: fillna_def column_mean_def)

lemma astype_float_PFloat [simp]: "astype_float R (PFloat x) = Inr x"
  by (simp add: astype_float_def)

lemma astype_float_PInt [simp]:
  "fits_64_bits i \<or> \<not> f_isinf R (f_of_int R i)
     \<Longrightarrow> astype_float R (PInt i) = Inr (Num (f_of_int R i))"
  by (simp add: astype_float_def)

lemma fits_64_bits_12 [simp]: "fits_64_bits 12"
  by (simp add: fits_64_bits_def)

lemma values_float_PInt [simp]: "values_float R (PInt i) = Inr (Num (f_of_int R i))"
  by (simp add: values_float_def)

lemma fill_mean_floats:
  "getitems df cols = Inr (map PFloat xs) \<Longrightarrow> fill_mean R cols df = Inr df"
  by (simp add: fill_mean_def traverse_map traverse_Inr setitems_same)

lemma distinct_cols:
  "distinct (label_encode_cols @ one_hot_encode_cols)" "distinct min_max_scale_cols"
  "distinct label_encode_cols" "distinct one_hot_encode_cols"
  "set (label_encode_cols @ one_hot_encode_cols) \<inter> set min_max_scale_cols = {}"
  "set min_max_scale_cols \<inter> set label_encode_cols = {}"
  "set one_hot_encode_cols \<inter> set label_encode_cols = {}"
  "set one_hot_encode_cols \<inter> set min_max_scale_cols = {}"
  "length label_encode_cols = 5" "length one_hot_encode_cols = 10"
  "length min_max_scale_cols = 3"
  by (simp_all add: label_encode_cols_def one_hot_encode_cols_def min_max_scale_cols_def)

subsection \<open>The encoder as a chain of its four transformers\<close>

text \<open>
  When the categorical cells are strings and the numeric cells are there, the frame
  can be left out: \<open>encode\<close> is the conversion of the numbers, the label encoders, the
  one-hot encoder, the scaler and \<^verbatim>\<open>hstack\<close>, in that order, the first failure winning.
\<close>

lemma map_sum_and_then:
  "map_sum id g (and_then m f) = and_then m (\<lambda>x. map_sum id g (f x))"
  by (cases m) simp_all

lemma and_then_Inr_right: "and_then m Inr = m"
  by (cases m) simp_all

lemma traverse_strip:
  "length cols = length ss \<Longrightarrow>
   traverse (\<lambda>(col, c). str_strip c) (zip cols (map PStr ss)) = Inr (map (\<lambda>s. PStr (strip s)) ss)"
  by (induction cols ss rule: list_induct2) (simp_all add: str_strip_def)

lemma encode_normal_form:
  assumes ls: "list_all2 (\<lambda>col s. data col = Some (PStr s)) label_encode_cols ls"
      and hs: "list_all2 (\<lambda>col s. data col = Some (PStr s)) one_hot_encode_cols hs"
      and cs: "list_all2 (\<lambda>col c. data col = Some c) min_max_scale_cols cs"
  shows "map_sum id snd (encode R A data) =
     and_then (traverse (astype_float R) (map replace_space cs)) (\<lambda>xs.
     and_then (traverse (\<lambda>(col, s). label_cell A col (PStr (strip s)))
                 (zip label_encode_cols ls)) (\<lambda>labels.
     and_then (ohe_transform R (one_hot_encoder A) (map (\<lambda>s. PStr (strip s)) hs))
       (\<lambda>one_hot_encoded.
     and_then (mms_transform R (min_max_scaler A) (map PFloat xs)) (\<lambda>scaled_numerical.
     hstack R labels scaled_numerical one_hot_encoded))))"
    (is "?lhs = ?rhs")
proof -
  define cat where "cat = label_encode_cols @ one_hot_encode_cols"
  define f :: "string \<Rightarrow> 'a cell" where "f = (\<lambda>s. PStr (strip s))"
  define df1 where "df1 = setitems data cat (map f (ls @ hs))"
  have len: "length ls = length label_encode_cols" "length hs = length one_hot_encode_cols"
    "length cs = length min_max_scale_cols"
    using ls hs cs by (simp_all add: list_all2_lengthD)
  have all: "list_all2 (\<lambda>col c. data col = Some c) cat (map PStr (ls @ hs))"
    unfolding cat_def using ls hs by (simp add: list_all2_appendI list_all2_map2)
  have dc: "distinct cat" unfolding cat_def by (rule distinct_cols(1))
  have lc: "length cat = length (ls @ hs)" unfolding cat_def using len by simp
  have "col_loop (\<lambda>col. str_strip) cat data =
      and_then (traverse (\<lambda>(col, c). str_strip c) (zip cat (map PStr (ls @ hs))))
        (\<lambda>ys. Inr (setitems data cat ys))"
    by (rule col_loop_traverse [OF dc all])
  then have s1: "strip_loop cat data = Inr df1"
    unfolding strip_loop_col_loop df1_def f_def
    by (simp only: traverse_strip [OF lc] and_then_Inr)
  have "getitems df1 cat = Inr (map f ls @ map f hs)"
    unfolding df1_def using distinct_cols(1) len
    by (simp add: getitems_setitems cat_def)
  then have g1: "getitems df1 label_encode_cols = Inr (map f ls)"
    "getitems df1 one_hot_encode_cols = Inr (map f hs)"
    unfolding cat_def getitems_append using len
    by (auto simp: getitems_eq_Inr dest: list_all2_lengthD)
  have g1n: "getitems df1 min_max_scale_cols = Inr cs"
    unfolding df1_def cat_def
    using distinct_cols(5) cs
    by (simp add: getitems_setitems_other Int_commute getitems_eq_Inr)
  show ?thesis
  proof (cases "traverse (astype_float R) (map replace_space cs)")
    case (Inl e)
    then show ?thesis
      by (simp add: encode_def s1 [unfolded cat_def] to_numeric_def g1n)
  next
    case (Inr xs)
    define df2 where "df2 = setitems df1 min_max_scale_cols (map PFloat xs)"
    have lx: "length xs = length min_max_scale_cols"
      using traverse_length [OF Inr] len by simp
    have s2: "to_numeric R min_max_scale_cols df1 = Inr df2"
      by (simp add: to_numeric_def g1n Inr df2_def)
    have g2n: "getitems df2 min_max_scale_cols = Inr (map PFloat xs)"
      unfolding df2_def using distinct_cols(2) lx by (simp add: getitems_setitems)
    have s3: "fill_mean R min_max_scale_cols df2 = Inr df2"
      using g2n by (rule fill_mean_floats)
    have g2: "getitems df2 label_encode_cols = Inr (map f ls)"
      "getitems df2 one_hot_encode_cols = Inr (map f hs)"
      unfolding df2_def using distinct_cols(5) g1
      by (auto simp: getitems_setitems_other disjoint_iff)
    have z: "zip label_encode_cols (map f ls) = map (\<lambda>(col, s). (col, f s)) (zip label_encode_cols ls)"
      by (simp add: zip_map2)
    have s4: "label_loop A label_encode_cols df2 =
        and_then (traverse (\<lambda>(col, s). label_cell A col (f s)) (zip label_encode_cols ls))
          (\<lambda>ys. Inr (setitems df2 label_encode_cols ys))"
      unfolding label_loop_col_loop
      using g2(1) distinct_cols(3)
      by (simp add: col_loop_traverse getitems_eq_Inr z traverse_map case_prod_unfold)
    show ?thesis
    proof (cases "traverse (\<lambda>(col, s). label_cell A col (f s)) (zip label_encode_cols ls)")
      case (Inl e)
      then show ?thesis
        using Inl Inr by (simp add: encode_def s1 [unfolded cat_def] s2 s3 s4 f_def)
    next
      case labels: (Inr labels)
      define df4 where "df4 = setitems df2 label_encode_cols labels"
      have ll: "length labels = length label_encode_cols"
        using traverse_length [OF labels] len by simp
      have g4: "getitems df4 one_hot_encode_cols = Inr (map f hs)"
        "getitems df4 min_max_scale_cols = Inr (map PFloat xs)"
        "getitems df4 label_encode_cols = Inr labels"
        unfolding df4_def using distinct_cols g2 g2n ll
        by (simp_all add: getitems_setitems_other getitems_setitems)
      have "encode R A data =
         and_then (ohe_transform R (one_hot_encoder A) (map f hs)) (\<lambda>one_hot_encoded.
         and_then (mms_transform R (min_max_scaler A) (map PFloat xs)) (\<lambda>scaled_numerical.
         and_then (hstack R labels scaled_numerical one_hot_encoded) (\<lambda>X_processed.
         Inr (df4, X_processed))))"
        by (simp add: encode_def s1 [unfolded cat_def] s2 s3 s4 labels df4_def [symmetric] g4)
      then show ?thesis
        using labels Inr
        by (simp add: map_sum_and_then and_then_Inr_right f_def)
    qed
  qed
qed


subsection \<open>The two functions of the service\<close>

lemma fst_preprocess_data:
  "fst (preprocess_data R A data out) = map_sum id snd (encode R A data)"
  by (simp add: preprocess_data_def split: sum.split prod.split)

lemma snd_preprocess_data_Inl:
  "fst (preprocess_data R A data out) = Inl e \<Longrightarrow> snd (preprocess_data R A data out) = out"
  by (auto simp: preprocess_data_def split: sum.splits prod.splits)

lemma fst_try_body:
  "fst (try_body R A data out) =
     and_then (fst (preprocess_data R A data out)) (\<lambda>X_new.
     and_then (model A X_new) (\<lambda>prediction.
     and_then (inverse_transform (le_target A) prediction) (\<lambda>label.
     Inr (if label = ''Yes'' then ''Churn'' else ''No Churn''))))"
  by (simp add: try_body_def split: prod.split)

lemma fst_predict_data:
  "fst (predict_data R A data out) =
     (case fst (try_body R A data out) of Inr s \<Rightarrow> s | Inl e \<Rightarrow> str_exc R e)"
  by (simp add: predict_data_def split: prod.split sum.split)


lemma make_data_senior:
  "make_data gender sc' partner dependents tenure phone_service multiple_lines
     internet_service online_security online_backup device_protection tech_support
     streaming_tv streaming_movies contract paperless_billing payment_method
     monthly_charges total_charges =
   (make_data gender sc partner dependents tenure phone_service multiple_lines
     internet_service online_security online_backup device_protection tech_support
     streaming_tv streaming_movies contract paperless_billing payment_method
     monthly_charges total_charges)(''SeniorCitizen'' \<mapsto> sc')"
  by (rule ext) (simp add: make_data_def)

lemma senior_not_used:
  "''SeniorCitizen'' \<notin> set (label_encode_cols @ one_hot_encode_cols @ min_max_scale_cols)"
  by (simp add: label_encode_cols_def one_hot_encode_cols_def min_max_scale_cols_def)


lemma strip_loop_same:
  "col \<in> set cols \<Longrightarrow> strip s1 = strip s2 \<Longrightarrow>
   strip_loop cols (df(col \<mapsto> PStr s1)) = strip_loop cols (df(col \<mapsto> PStr s2))"
proof (induction cols arbitrary: df)
  case Nil
  then show "strip_loop [] (df(col \<mapsto> PStr s1)) = strip_loop [] (df(col \<mapsto> PStr s2))"
    by simp
next
  case (Cons c cols)
  show "strip_loop (c # cols) (df(col \<mapsto> PStr s1)) = strip_loop (c # cols) (df(col \<mapsto> PStr s2))"
  proof (cases "c = col")
    case True
    then show ?thesis using Cons.prems(2) by (simp add: getitem_def str_strip_def)
  next
    case False
    then have in_cols: "col \<in> set cols" using Cons.prems(1) by simp
    have ne: "col \<noteq> c" using False by simp
    have "\<And>c'. strip_loop cols (df(col \<mapsto> PStr s1, c \<mapsto> c'))
                = strip_loop cols (df(col \<mapsto> PStr s2, c \<mapsto> c'))"
      unfolding fun_upd_twist [OF ne]
      by (rule Cons.IH [OF in_cols Cons.prems(2)])
    then show ?thesis
      by (simp add: getitem_upd_other [OF ne])
  qed
qed


subsection \<open>The concrete instance\<close>

lemma example_data_cells:
  "list_all2 (\<lambda>col s. example_data (PStr i) tc col = Some (PStr s)) label_encode_cols
     [''Yes'', ''No'', ''Yes'', ''No'', ''Female'']"
  "list_all2 (\<lambda>col s. example_data (PStr i) tc col = Some (PStr s)) one_hot_encode_cols
     [''No'', i, ''Yes'', ''No'', ''No'', ''No'', ''No'', ''No'', ''One year'', ''Mailed check'']"
  "list_all2 (\<lambda>col c. example_data (PStr i) tc col = Some c) min_max_scale_cols
     [PInt 12, PFloat (Num 50), tc]"
  by (simp_all add: example_data_def make_data_def label_encode_cols_def
      one_hot_encode_cols_def min_max_scale_cols_def)

lemmas example_normal_form =
  encode_normal_form [OF example_data_cells]

lemma strip_literals:
  "strip ''Yes'' = ''Yes''" "strip ''No'' = ''No''" "strip ''Female'' = ''Female''"
  "strip ''One year'' = ''One year''" "strip ''Mailed check'' = ''Mailed check''"
  "strip ''DSL'' = ''DSL''" "strip ''Cable'' = ''Cable''"
  by (simp_all add: strip_def is_space_def)

lemma example_labels:
  "traverse (\<lambda>(col, s). label_cell example_artifacts col (PStr (strip s)))
     (zip label_encode_cols [''Yes'', ''No'', ''Yes'', ''No'', ''Female''])
   = Inr [PInt 1, PInt 0, PInt 1, PInt 0, PInt 0]"
  by (simp add: label_encode_cols_def label_cell_def example_artifacts_def le_transform_def
      strip_literals)

lemma example_one_hot_DSL:
  "ohe_transform example_runtime (one_hot_encoder example_artifacts)
     (map (\<lambda>s. PStr (strip s))
        [''No'', ''DSL'', ''Yes'', ''No'', ''No'', ''No'', ''No'', ''No'', ''One year'', ''Mailed check''])
   = Inr (map Num [1, 0, 0,  1, 0, 0,  0, 0, 1,  1, 0, 0,  1, 0, 0,  1, 0, 0,  1, 0, 0,  1, 0, 0,
              0, 1, 0,  0, 0, 0, 1])"
  by (simp add: ohe_transform_def example_artifacts_def example_runtime_def one_hot_def
      strip_literals upt_rec)

lemma example_one_hot_Cable:
  "ohe_transform example_runtime (one_hot_encoder example_artifacts)
     (map (\<lambda>s. PStr (strip s))
        [''No'', ''Cable'', ''Yes'', ''No'', ''No'', ''No'', ''No'', ''No'', ''One year'', ''Mailed check''])
   = Inl (UnknownCategories (PStr ''Cable'') 1)"
  by (simp add: ohe_transform_def example_artifacts_def example_runtime_def one_hot_def
      strip_literals upt_rec)

lemma example_scaled:
  "mms_transform example_runtime (min_max_scaler example_artifacts)
     [PFloat (Num 12), PFloat (Num 50), PFloat x]
   = Inr [Num (1 / 6), Num (8 / 25), scale_value example_runtime example_scaler
            \<lparr>data_min = 0, data_max = 8000, scaler_scale = 1 / 8000, scaler_min = 0\<rparr> x]"
  by (simp add: mms_transform_def example_artifacts_def example_runtime_def example_scaler_def
      is_inf_def scale_value_def split: pyfloat.split)

lemma example_encode_DSL:
  assumes "astype_float example_runtime (replace_space tc) = Inr x"
  shows "fst (preprocess_data example_runtime example_artifacts (example_data (PStr ''DSL'') tc) out)
    = Inr (example_row (scale_value example_runtime example_scaler
            \<lparr>data_min = 0, data_max = 8000, scaler_scale = 1 / 8000, scaler_min = 0\<rparr> x))"
proof -
  have "astype_float example_runtime (replace_space (PInt 12)) = Inr (Num 12)"
    "astype_float example_runtime (replace_space (PFloat (Num 50))) = Inr (Num 50)"
    by (simp_all add: replace_space_def example_runtime_def)
  then have t: "traverse (astype_float example_runtime)
        (map replace_space [PInt 12, PFloat (Num 50), tc]) = Inr [Num 12, Num 50, x]"
    using assms by simp
  have h: "hstack example_runtime [PInt 1, PInt 0, PInt 1, PInt 0, PInt 0] a b
      = Inr (map Num [1, 0, 1, 0, 0] @ a @ b)" for a b
    by (simp add: hstack_def example_runtime_def)
  show ?thesis
    unfolding fst_preprocess_data example_normal_form t and_then_Inr example_labels
      example_one_hot_DSL h example_row_def
    by (simp add: example_scaled)
qed

lemma example_nan_total:
  "astype_float example_runtime (replace_space (PStr '' '')) = Inr NaN"
  "scale_value example_runtime example_scaler col NaN = NaN"
  by (simp_all add: replace_space_def scale_value_def)

lemma example_float_total:
  "astype_float example_runtime (replace_space (PFloat (Num 600))) = Inr (Num 600)"
  "scale_value example_runtime example_scaler
     \<lparr>data_min = 0, data_max = 8000, scaler_scale = 1 / 8000, scaler_min = 0\<rparr> (Num 600)
   = Num (3 / 40)"
  by (simp_all add: replace_space_def scale_value_def example_runtime_def example_scaler_def)

lemma example_encode_Cable:
  assumes "astype_float example_runtime (replace_space tc) = Inr x"
  shows "fst (preprocess_data example_runtime example_artifacts (example_data (PStr ''Cable'') tc) out)
    = Inl (UnknownCategories (PStr ''Cable'') 1)"
proof -
  have "astype_float example_runtime (replace_space (PInt 12)) = Inr (Num 12)"
    "astype_float example_runtime (replace_space (PFloat (Num 50))) = Inr (Num 50)"
    by (simp_all add: replace_space_def example_runtime_def)
  then have t: "traverse (astype_float example_runtime)
        (map replace_space [PInt 12, PFloat (Num 50), tc]) = Inr [Num 12, Num 50, x]"
    using assms by simp
  show ?thesis
    unfolding fst_preprocess_data example_normal_form t and_then_Inr example_labels
      example_one_hot_Cable
    by simp
qed

lemma example_model_row:
  "example_model (example_row (Num (3 / 40))) = Inr 1"
  "example_model (example_row NaN) = Inl (ModelError ''Input X contains NaN.'')"
  by (simp_all add: example_model_def example_row_def is_nan_def)

subsection \<open>Encoders, domains and the kinds of failure\<close>

lemma label_loop_cong:
  "label_encoders A' = label_encoders A \<Longrightarrow> label_loop A' cols df = label_loop A cols df"
  by (induction cols arbitrary: df) (simp_all split: option.split)

lemma encode_cong:
  assumes "label_encoders A' = label_encoders A" "one_hot_encoder A' = one_hot_encoder A"
    and "mms_transform R (min_max_scaler A') = mms_transform R (min_max_scaler A)"
  shows "encode R A' data = encode R A data"
  by (simp add: encode_def label_loop_cong [OF assms(1)] assms(2,3))

lemma index_of_None: "index_of x xs = None \<longleftrightarrow> x \<notin> set xs"
  by (induction xs) auto


lemma index_of_mem: "x \<in> set xs \<Longrightarrow> \<exists>i. index_of x xs = Some i"
  using index_of_None [of x xs] by (cases "index_of x xs") auto


lemma length_one_hot [simp]: "length (one_hot R n k) = n"
  by (simp add: one_hot_def)

lemma obtain_list:
  assumes "\<forall>j<n. \<exists>y. P j y"
  obtains ys where "length ys = n" "\<forall>j<n. P j (ys ! j)"
proof -
  from assms obtain f where f: "\<forall>j<n. P j (f j)" by metis
  show thesis
    by (rule that [of "map f [0..<n]"]) (use f in auto)
qed

lemma traverse_nth:
  "length ys = length xs \<Longrightarrow> \<forall>j<length xs. f (xs ! j) = Inr (ys ! j) \<Longrightarrow> traverse f xs = Inr ys"
  by (simp add: traverse_eq_Inr list_all2_conv_all_nth)


lemma ohe_columns_ok:
  "length vs = length cats \<Longrightarrow> length ks = length cats \<Longrightarrow>
   \<forall>j<length cats. index_of (vs ! j) (cats ! j) = Some (ks ! j) \<Longrightarrow>
   ohe_columns R i cats (map PStr vs)
     = Inr (concat (map2 (\<lambda>cs k. one_hot R (length cs) k) cats ks))"
proof (induction cats arbitrary: vs ks i)
  case Nil
  then show "ohe_columns R i [] (map PStr vs)
     = Inr (concat (map2 (\<lambda>cs k. one_hot R (length cs) k) [] ks))" by simp
next
  case (Cons cs cats)
  from Cons.prems obtain v vs' k ks' where vk: "vs = v # vs'" "ks = k # ks'"
    by (cases vs; cases ks) auto
  have 0: "index_of v cs = Some k" using Cons.prems(3) vk by auto
  have "\<forall>j<length cats. index_of (vs' ! j) (cats ! j) = Some (ks' ! j)"
    using Cons.prems(3) vk by auto
  then have "ohe_columns R (Suc i) cats (map PStr vs')
     = Inr (concat (map2 (\<lambda>cs k. one_hot R (length cs) k) cats ks'))"
    using Cons.prems(1,2) vk by (intro Cons.IH) auto
  then show "ohe_columns R i (cs # cats) (map PStr vs)
     = Inr (concat (map2 (\<lambda>cs k. one_hot R (length cs) k) (cs # cats) ks))"
    using vk 0 by simp
qed



lemma length_concat_blocks:
  "length ks = length cats \<Longrightarrow>
   length (concat (map2 (\<lambda>cs k. one_hot R (length cs) k) cats ks)) = sum_list (map length cats)"
  by (induction cats ks rule: list_induct2') simp_all

lemma label_cell_PStr:
  "label_cell A col (PStr v) = Inr l \<longleftrightarrow>
     (\<exists>classes i. label_encoders A col = Some classes \<and> index_of v classes = Some i \<and> l = PInt (int i))"
  by (auto simp: label_cell_def le_transform_def and_then_def split: option.splits)


lemma strip_all_values: "\<forall>s\<in>set all_values. strip s = s"
  unfolding all_values_def by (simp add: strip_def is_space_def)

lemma domain_values: "s \<in> set (domain col) \<Longrightarrow> s \<in> set all_values"
  unfolding domain_def all_values_def
  by (simp split: if_splits; elim disjE; simp)

lemma domain_strip: "s \<in> set (domain col) \<Longrightarrow> strip s = s"
  using domain_values [of s col] strip_all_values by blast

lemma valid_categoryD:
  assumes "valid_category data col"
  shows "\<exists>s. data col = Some (PStr s) \<and> s \<in> set (domain col) \<and> strip s = s"
proof (cases "data col")
  case None
  then show ?thesis using assms by (simp add: valid_category_def)
next
  case (Some c)
  then show ?thesis using assms
    by (cases c) (simp_all add: valid_category_def domain_strip)
qed

lemma valid_numberD:
  assumes "valid_number R data col"
  shows "\<exists>c x. data col = Some c \<and> astype_float R (replace_space c) = Inr x
          \<and> astype_float R c = Inr x \<and> \<not> is_inf R x"
proof (cases "data col")
  case None
  then show ?thesis using assms by (simp add: valid_number_def)
next
  case (Some c)
  show ?thesis
  proof (cases c)
    case (PStr s)
    then show ?thesis using assms Some by (simp add: valid_number_def)
  next
    case (PInt i)
    then show ?thesis using assms Some
      by (simp add: valid_number_def replace_space_def is_inf_def)
  next
    case (PFloat x)
    then show ?thesis using assms Some
      by (cases x) (simp_all add: valid_number_def replace_space_def is_inf_def)
  qed
qed

lemma traverse_Inr_map: "traverse (\<lambda>x. Inr (g x)) xs = Inr (map g xs)"
  by (induction xs) simp_all

lemma hstack_codes:
  "hstack R (map (\<lambda>i. PInt (int i)) codes) a b
     = Inr (map (\<lambda>i. Num (f_of_int R (int i))) codes @ a @ b)"
  by (simp add: hstack_def traverse_map traverse_Inr_map)

lemma mms_transform_floats:
  assumes "\<forall>x\<in>set xs. \<not> is_inf R x" and "length xs = length (scaler_cols sc)"
  shows "mms_transform R sc (map PFloat xs) = Inr (map2 (scale_value R sc) (scaler_cols sc) xs)"
  using assms by (simp add: mms_transform_def traverse_map traverse_Inr list_ex_iff)

lemma ohe_transform_ok:
  assumes "length vs = length cats" "length ks = length cats"
    and "\<forall>j<length cats. index_of (vs ! j) (cats ! j) = Some (ks ! j)"
  shows "ohe_transform R cats (map PStr vs)
     = Inr (concat (map2 (\<lambda>cs k. one_hot R (length cs) k) cats ks))"
  using assms by (simp add: ohe_transform_def ohe_columns_ok)










lemma scale_value_range:
  "clip sc' = clip sc \<Longrightarrow> feature_range sc' = feature_range sc \<Longrightarrow>
   scale_value R sc' (c\<lparr>data_min := a, data_max := b\<rparr>) x = scale_value R sc c x"
  by (simp add: scale_value_def split: pyfloat.split)

lemma mms_transform_range:
  "mms_transform R
     (sc\<lparr>scaler_cols := map (\<lambda>c. c\<lparr>data_min := lo c, data_max := hi c\<rparr>) (scaler_cols sc)\<rparr>) cells
   = mms_transform R sc cells"
proof -
  let ?sc = "sc\<lparr>scaler_cols := map (\<lambda>c. c\<lparr>data_min := lo c, data_max := hi c\<rparr>) (scaler_cols sc)\<rparr>"
  have z: "map2 (scale_value R ?sc) (map (\<lambda>c. c\<lparr>data_min := lo c, data_max := hi c\<rparr>) (scaler_cols sc)) xs
      = map2 (scale_value R sc) (scaler_cols sc) xs" for xs
    by (simp add: zip_map1 scale_value_range case_prod_unfold)
  show ?thesis
    by (simp add: mms_transform_def z cong: if_cong)
qed

subsection \<open>More on the concrete instance\<close>

lemma example_valid:
  "valid_record example_runtime (example_data (PStr ''DSL'') (PFloat (Num 600)))"
  by (simp add: valid_record_def valid_category_def valid_number_def example_data_def
      make_data_def label_encode_cols_def one_hot_encode_cols_def min_max_scale_cols_def
      domain_def yes_no_cols_def internet_cols_def example_runtime_def)

lemma example_fitted: "fitted example_artifacts"
  by (simp add: fitted_def example_artifacts_def example_scaler_def
      label_encode_cols_def one_hot_encode_cols_def min_max_scale_cols_def
      domain_def yes_no_cols_def internet_cols_def)

lemma example_not_converted:
  assumes "w \<noteq> '' ''" and "strip w = []"
  shows "fst (preprocess_data R A (example_data (PStr i) (PStr w)) out) = Inl (CouldNotConvert w)"
proof -
  have "astype_float R (replace_space (PStr w)) = Inl (CouldNotConvert w)"
    using assms by (simp add: replace_space_def astype_float_def py_float_def)
  moreover have "astype_float R (replace_space (PInt 12)) = Inr (Num (f_of_int R 12))"
    "astype_float R (replace_space (PFloat (Num 50))) = Inr (Num 50)"
    by (simp_all add: replace_space_def)
  ultimately have "traverse (astype_float R) (map replace_space [PInt 12, PFloat (Num 50), PStr w])
      = Inl (CouldNotConvert w)"
    by simp
  then show ?thesis
    unfolding fst_preprocess_data example_normal_form by simp
qed

lemma strip_blank: "strip ''  '' = []" "strip [CHR 0x09] = []"
  by (simp_all add: strip_def is_space_def)



lemma example_encode_DSL_with:
  assumes "label_encoders A = label_encoders example_artifacts"
      and "one_hot_encoder A = one_hot_encoder example_artifacts"
      and "mms_transform example_runtime (min_max_scaler A)
             [PFloat (Num 12), PFloat (Num 50), PFloat (Num 600)] = Inr sc"
  shows "fst (preprocess_data example_runtime A (example_data (PStr ''DSL'') (PFloat (Num 600))) out)
    = Inr (map Num [1, 0, 1, 0, 0] @ sc @ drop 8 (example_row NaN))"
proof -
  have l: "label_cell A = label_cell example_artifacts"
    by (intro ext) (simp add: label_cell_def assms(1))
  have t: "traverse (astype_float example_runtime)
        (map replace_space [PInt 12, PFloat (Num 50), PFloat (Num 600)])
      = Inr [Num 12, Num 50, Num 600]"
    by (simp add: replace_space_def example_runtime_def)
  have h: "hstack example_runtime [PInt 1, PInt 0, PInt 1, PInt 0, PInt 0] a b
      = Inr (map Num [1, 0, 1, 0, 0] @ a @ b)" for a b
    by (simp add: hstack_def example_runtime_def)
  have m: "mms_transform example_runtime (min_max_scaler A) (map PFloat [Num 12, Num 50, Num 600])
      = Inr sc"
    using assms(3) by simp
  have d: "drop 8 (example_row NaN) = map Num [1, 0, 0,  1, 0, 0,  0, 0, 1,  1, 0, 0,  1, 0, 0,
      1, 0, 0,  1, 0, 0,  1, 0, 0,  0, 1, 0,  0, 0, 0, 1]"
    by (simp add: example_row_def)
  show ?thesis
    unfolding fst_preprocess_data example_normal_form t and_then_Inr l assms(2) example_labels
      example_one_hot_DSL m h d ..
qed

lemma example_predict_eq:
  "example_predict A i tc =
     (case and_then (fst (preprocess_data example_runtime A (example_data i tc) [])) (\<lambda>X_new.
           and_then (model A X_new) (\<lambda>prediction.
           and_then (inverse_transform (le_target A) prediction) (\<lambda>label.
           Inr (if label = ''Yes'' then ''Churn'' else ''No Churn'')))) of
        Inr s \<Rightarrow> s | Inl e \<Rightarrow> example_str e)"
proof -
  have "str_exc example_runtime = example_str"
    by (simp add: example_runtime_def)
  then show ?thesis
    by (simp add: example_predict_def predict_def fst_predict_data fst_try_body
        example_data_def split: sum.split)
qed

subsection \<open>The row of a valid record\<close>

lemma valid_record_row:
  assumes v: "valid_record R data" and f: "fitted A"
  shows "\<exists>codes nums ks.
      length codes = 5 \<and> length nums = 3 \<and> length ks = 10
    \<and> (\<forall>j<5. \<exists>s classes. data (label_encode_cols ! j) = Some (PStr s)
            \<and> label_encoders A (label_encode_cols ! j) = Some classes
            \<and> index_of s classes = Some (codes ! j))
    \<and> (\<forall>j<3. \<exists>c. data (min_max_scale_cols ! j) = Some c \<and> astype_float R c = Inr (nums ! j))
    \<and> (\<forall>j<10. \<exists>s. data (one_hot_encode_cols ! j) = Some (PStr s)
            \<and> index_of s (one_hot_encoder A ! j) = Some (ks ! j))
    \<and> fst (preprocess_data R A data out) = Inr (spec_feature_vector R A codes nums ks)
    \<and> length (spec_feature_vector R A codes nums ks)
        = 5 + 3 + sum_list (map length (one_hot_encoder A))"
proof -
  note len = distinct_cols(9,10,11)
  have cat: "\<forall>col\<in>set (label_encode_cols @ one_hot_encode_cols). valid_category data col"
    and num: "\<forall>col\<in>set min_max_scale_cols. valid_number R data col"
    using v by (simp_all add: valid_record_def list_all_iff)
  have fl: "\<forall>col\<in>set label_encode_cols. \<exists>classes. label_encoders A col = Some classes
              \<and> set (domain col) \<subseteq> set classes"
    using f by (auto simp: fitted_def list_all_iff split: option.splits)
  have fo: "length (one_hot_encoder A) = 10"
    "\<forall>j<10. set (domain (one_hot_encode_cols ! j)) \<subseteq> set (one_hot_encoder A ! j)"
    using f len by (auto simp: fitted_def list_all2_conv_all_nth)
  have fs: "length (scaler_cols (min_max_scaler A)) = 3"
    using f len by (simp add: fitted_def)

  have "\<forall>j<5. \<exists>s. data (label_encode_cols ! j) = Some (PStr s)
          \<and> s \<in> set (domain (label_encode_cols ! j)) \<and> strip s = s"
    using cat len by (auto intro!: valid_categoryD)
  then obtain ls where ls: "length ls = 5"
    "\<forall>j<5. data (label_encode_cols ! j) = Some (PStr (ls ! j))
          \<and> ls ! j \<in> set (domain (label_encode_cols ! j)) \<and> strip (ls ! j) = ls ! j"
    by (rule obtain_list)
  have "\<forall>j<10. \<exists>s. data (one_hot_encode_cols ! j) = Some (PStr s)
          \<and> s \<in> set (domain (one_hot_encode_cols ! j)) \<and> strip s = s"
    using cat len by (auto intro!: valid_categoryD)
  then obtain hs where hs: "length hs = 10"
    "\<forall>j<10. data (one_hot_encode_cols ! j) = Some (PStr (hs ! j))
          \<and> hs ! j \<in> set (domain (one_hot_encode_cols ! j)) \<and> strip (hs ! j) = hs ! j"
    by (rule obtain_list)
  have "\<forall>j<3. \<exists>c. \<exists>x. data (min_max_scale_cols ! j) = Some c
          \<and> astype_float R (replace_space c) = Inr x \<and> astype_float R c = Inr x \<and> \<not> is_inf R x"
  proof (intro allI impI)
    fix j :: nat assume "j < 3"
    then have "min_max_scale_cols ! j \<in> set min_max_scale_cols" using len by simp
    then have "valid_number R data (min_max_scale_cols ! j)" using num by blast
    then show "\<exists>c. \<exists>x. data (min_max_scale_cols ! j) = Some c
          \<and> astype_float R (replace_space c) = Inr x \<and> astype_float R c = Inr x \<and> \<not> is_inf R x"
      by (rule valid_numberD)
  qed
  then obtain cs where cs: "length cs = 3"
    "\<forall>j<3. \<exists>x. data (min_max_scale_cols ! j) = Some (cs ! j)
          \<and> astype_float R (replace_space (cs ! j)) = Inr x \<and> astype_float R (cs ! j) = Inr x
          \<and> \<not> is_inf R x"
    by (rule obtain_list)
  from cs(2) obtain nums where nums: "length nums = 3"
    "\<forall>j<3. data (min_max_scale_cols ! j) = Some (cs ! j)
          \<and> astype_float R (replace_space (cs ! j)) = Inr (nums ! j)
          \<and> astype_float R (cs ! j) = Inr (nums ! j) \<and> \<not> is_inf R (nums ! j)"
    by (rule obtain_list)
  have "\<forall>j<5. \<exists>i. \<exists>classes. label_encoders A (label_encode_cols ! j) = Some classes
          \<and> index_of (ls ! j) classes = Some i"
  proof (intro allI impI)
    fix j :: nat assume j: "j < 5"
    then have "label_encode_cols ! j \<in> set label_encode_cols" using len by simp
    with fl obtain classes where c: "label_encoders A (label_encode_cols ! j) = Some classes"
      "set (domain (label_encode_cols ! j)) \<subseteq> set classes" by blast
    then have "ls ! j \<in> set classes" using ls(2) j by blast
    then show "\<exists>i. \<exists>classes. label_encoders A (label_encode_cols ! j) = Some classes
          \<and> index_of (ls ! j) classes = Some i"
      using c(1) index_of_mem by fastforce
  qed
  then obtain codes where codes: "length codes = 5"
    "\<forall>j<5. \<exists>classes. label_encoders A (label_encode_cols ! j) = Some classes
          \<and> index_of (ls ! j) classes = Some (codes ! j)"
    by (rule obtain_list)
  have "\<forall>j<10. \<exists>k. index_of (hs ! j) (one_hot_encoder A ! j) = Some k"
    using hs(2) fo(2) index_of_mem by (metis subsetD)
  then obtain ks where ks: "length ks = 10"
    "\<forall>j<10. index_of (hs ! j) (one_hot_encoder A ! j) = Some (ks ! j)"
    by (rule obtain_list)

  have L2: "list_all2 (\<lambda>col s. data col = Some (PStr s)) label_encode_cols ls"
    using ls len by (simp add: list_all2_conv_all_nth)
  have H2: "list_all2 (\<lambda>col s. data col = Some (PStr s)) one_hot_encode_cols hs"
    using hs len by (simp add: list_all2_conv_all_nth)
  have C2: "list_all2 (\<lambda>col c. data col = Some c) min_max_scale_cols cs"
    using cs nums len by (simp add: list_all2_conv_all_nth)
  have N: "traverse (astype_float R) (map replace_space cs) = Inr nums"
    using cs(1) nums by (intro traverse_nth) simp_all
  have L: "traverse (\<lambda>(col, s). label_cell A col (PStr (strip s))) (zip label_encode_cols ls)
      = Inr (map (\<lambda>i. PInt (int i)) codes)"
    using ls codes len by (intro traverse_nth) (auto simp: label_cell_PStr)
  have eq: "map (\<lambda>s. PStr (strip s)) hs = map PStr hs"
    using hs by (intro nth_equalityI) simp_all
  have O: "ohe_transform R (one_hot_encoder A) (map (\<lambda>s. PStr (strip s)) hs)
      = Inr (concat (map2 (\<lambda>cats k. one_hot R (length cats) k) (one_hot_encoder A) ks))"
    unfolding eq using hs(1) ks fo(1) by (intro ohe_transform_ok) simp_all
  have "\<forall>x\<in>set nums. \<not> is_inf R x"
    using nums by (auto simp: in_set_conv_nth)
  then have M: "mms_transform R (min_max_scaler A) (map PFloat nums)
      = Inr (map2 (scale_value R (min_max_scaler A)) (scaler_cols (min_max_scaler A)) nums)"
    using nums(1) fs by (intro mms_transform_floats) simp_all
  have enc: "fst (preprocess_data R A data out) = Inr (spec_feature_vector R A codes nums ks)"
    unfolding fst_preprocess_data encode_normal_form [OF L2 H2 C2] N L O M and_then_Inr
      hstack_codes spec_feature_vector_def ..
  have lenv: "length (spec_feature_vector R A codes nums ks)
        = 5 + 3 + sum_list (map length (one_hot_encoder A))"
    using codes(1) nums(1) ks(1) fs fo(1)
    by (simp add: spec_feature_vector_def length_concat_blocks)
  have A1: "\<forall>j<5. \<exists>s classes. data (label_encode_cols ! j) = Some (PStr s)
            \<and> label_encoders A (label_encode_cols ! j) = Some classes
            \<and> index_of s classes = Some (codes ! j)"
    using ls(2) codes(2) by blast
  have A2: "\<forall>j<3. \<exists>c. data (min_max_scale_cols ! j) = Some c \<and> astype_float R c = Inr (nums ! j)"
    using nums(2) by blast
  have A3: "\<forall>j<10. \<exists>s. data (one_hot_encode_cols ! j) = Some (PStr s)
            \<and> index_of s (one_hot_encoder A ! j) = Some (ks ! j)"
    using hs(2) ks(2) by blast
  show ?thesis
    using codes(1) nums(1) ks(1) A1 A2 A3 enc lenv by blast
qed

subsection \<open>The scaler\<close>

lemma preprocess_data_with_range:
  "preprocess_data R (with_range lo hi A) data out = preprocess_data R A data out"
proof -
  have "encode R (with_range lo hi A) data = encode R A data"
    unfolding with_range_def
    by (rule encode_cong) (simp_all add: mms_transform_range fun_eq_iff)
  then show ?thesis
    by (simp only: preprocess_data_def)
qed

lemma list_all_with_range:
  "list_all (\<lambda>c. data_min c = data_max c) (scaler_cols (min_max_scaler (with_range m m A)))"
  by (simp add: with_range_def list_all_iff)

lemma mms_transform_on_floats:
  "mms_transform R sc (map PFloat xs) =
     (if list_ex (is_inf R) xs then Inl InputContainsInfinity
      else if length xs \<noteq> length (scaler_cols sc)
      then Inl (FeatureCountMismatch (length xs) (length (scaler_cols sc)))
      else Inr (map2 (scale_value R sc) (scaler_cols sc) xs))"
  by (simp add: mms_transform_def traverse_map traverse_Inr)

lemma scale_value_Num:
  "scale_value R sc c (Num v) =
     (case f_mul R v (scaler_scale c) of
        NaN \<Rightarrow> NaN
      | Num w \<Rightarrow>
          (case f_add R w (scaler_min c) of
             NaN \<Rightarrow> NaN
           | Num y \<Rightarrow>
               Num (if clip sc then f_clip R y (fst (feature_range sc)) (snd (feature_range sc))
                    else y)))"
  by (simp add: scale_value_def split: pyfloat.split)

lemma valid_record_scaled:
  assumes "valid_record R data" and "fitted A"
  shows "\<exists>nums X. length nums = 3
      \<and> (\<forall>j<3. \<exists>c. data (min_max_scale_cols ! j) = Some c \<and> astype_float R c = Inr (nums ! j))
      \<and> fst (preprocess_data R A data out) = Inr X
      \<and> take 3 (drop 5 X)
          = map2 (scale_value R (min_max_scaler A)) (scaler_cols (min_max_scaler A)) nums"
proof -
  from valid_record_row [OF assms, of out] obtain codes nums ks where
    l: "length codes = 5" "length nums = 3"
    and n: "\<forall>j<3. \<exists>c. data (min_max_scale_cols ! j) = Some c \<and> astype_float R c = Inr (nums ! j)"
    and X: "fst (preprocess_data R A data out) = Inr (spec_feature_vector R A codes nums ks)"
    by blast
  have "length (scaler_cols (min_max_scaler A)) = 3"
    using assms(2) by (simp add: fitted_def distinct_cols)
  then have "take 3 (drop 5 (spec_feature_vector R A codes nums ks))
      = map2 (scale_value R (min_max_scaler A)) (scaler_cols (min_max_scaler A)) nums"
    using l by (simp add: spec_feature_vector_def)
  then show ?thesis using l n X by blast
qed

subsection \<open>The encoder on the heap\<close>

lemma put_frame_simps [simp]:
  "objects (put_frame df c h) = (objects h)(df := c)"
  "next_addr (put_frame df c h) = next_addr h"
  "globals (put_frame df c h) = globals h"
  "stdout (put_frame df c h) = stdout h"
  "put_frame df c (put_frame df c' h) = put_frame df c h"
  "put_frame df (objects h df) h = h"
  by (simp_all add: put_frame_def)

lemma then_do_simps [simp]:
  "then_do (evaluate (Inl e)) f h = (Inl e, h)"
  "then_do (evaluate (Inr x)) f h = f x h"
  by (simp_all add: then_do_def evaluate_def)

lemma then_do_eq:
  "m h = (Inl e, h') \<Longrightarrow> then_do m f h = (Inl e, h')"
  "m h = (Inr x, h') \<Longrightarrow> then_do m f h = f x h'"
  by (simp_all add: then_do_def)

lemma strip_loop_heap_eq:
  "strip_loop_heap cols df h =
     (map_sum id (\<lambda>_. ()) (strip_loop cols (objects h df)),
      put_frame df (strip_frame cols (objects h df)) h)"
proof (induction cols arbitrary: h)
  case Nil
  show "strip_loop_heap [] df h =
     (map_sum id (\<lambda>_. ()) (strip_loop [] (objects h df)),
      put_frame df (strip_frame [] (objects h df)) h)" by simp
next
  case (Cons col cols)
  show "strip_loop_heap (col # cols) df h =
     (map_sum id (\<lambda>_. ()) (strip_loop (col # cols) (objects h df)),
      put_frame df (strip_frame (col # cols) (objects h df)) h)"
  proof (cases "and_then (getitem (objects h df) col) str_strip")
    case (Inl e)
    then show ?thesis
      by (cases "getitem (objects h df) col")
        (simp_all add: then_do_def df_getitem_def evaluate_def)
  next
    case (Inr v)
    then obtain c where c: "getitem (objects h df) col = Inr c" "str_strip c = Inr v"
      by (auto simp: and_then_eq_Inr)
    have "strip_loop_heap (col # cols) df h
        = strip_loop_heap cols df (put_frame df ((objects h df)(col \<mapsto> v)) h)"
      using c by (simp add: then_do_def df_getitem_def evaluate_def df_setitem_def put_frame_def)
    moreover have "strip_loop (col # cols) (objects h df)
        = strip_loop cols ((objects h df)(col \<mapsto> v))"
      using c by simp
    moreover have "strip_frame (col # cols) (objects h df)
        = strip_frame cols ((objects h df)(col \<mapsto> v))"
      using Inr by simp
    ultimately show ?thesis
      by (simp add: Cons.IH fun_upd_same id_def del: fun_upd_apply strip_loop.simps strip_frame.simps)
  qed
qed

lemma strip_frame_Inr: "strip_loop cols c = Inr c' \<Longrightarrow> strip_frame cols c = c'"
  by (induction cols arbitrary: c) (auto simp: and_then_def split: sum.splits)

lemma label_loop_heap_eq:
  "label_loop_heap cols df h =
     (map_sum id (\<lambda>_. ()) (label_loop (globals h) cols (objects h df)),
      put_frame df (label_frame (globals h) cols (objects h df)) h)"
proof (induction cols arbitrary: h)
  case Nil
  show "label_loop_heap [] df h =
     (map_sum id (\<lambda>_. ()) (label_loop (globals h) [] (objects h df)),
      put_frame df (label_frame (globals h) [] (objects h df)) h)" by simp
next
  case (Cons col cols)
  let ?step = "and_then (label_encoder_of col (globals h)) (\<lambda>le.
           and_then (getitem (objects h df) col) (le_transform le))"
  show "label_loop_heap (col # cols) df h =
     (map_sum id (\<lambda>_. ()) (label_loop (globals h) (col # cols) (objects h df)),
      put_frame df (label_frame (globals h) (col # cols) (objects h df)) h)"
  proof (cases ?step)
    case (Inl e)
    then show ?thesis
      by (cases "label_encoders (globals h) col"; cases "getitem (objects h df) col")
        (simp_all add: then_do_def df_getitem_def evaluate_def read_globals_def
          label_encoder_of_def)
  next
    case (Inr code)
    then obtain le c where c: "label_encoders (globals h) col = Some le"
      "getitem (objects h df) col = Inr c" "le_transform le c = Inr code"
      by (auto simp: and_then_eq_Inr label_encoder_of_def split: option.splits)
    have "label_loop_heap (col # cols) df h
        = label_loop_heap cols df (put_frame df ((objects h df)(col \<mapsto> PInt code)) h)"
      using c by (simp add: then_do_def df_getitem_def evaluate_def df_setitem_def put_frame_def
          read_globals_def label_encoder_of_def)
    moreover have "label_loop (globals h) (col # cols) (objects h df)
        = label_loop (globals h) cols ((objects h df)(col \<mapsto> PInt code))"
      using c by simp
    moreover have "label_frame (globals h) (col # cols) (objects h df)
        = label_frame (globals h) cols ((objects h df)(col \<mapsto> PInt code))"
      using Inr by simp
    ultimately show ?thesis
      by (simp add: Cons.IH fun_upd_same id_def del: fun_upd_apply label_loop.simps label_frame.simps)
  qed
qed

lemma label_frame_Inr: "label_loop A cols c = Inr c' \<Longrightarrow> label_frame A cols c = c'"
  by (induction cols arbitrary: c)
    (auto simp: and_then_def label_encoder_of_def split: sum.splits option.splits)

lemma to_numeric_heap_eq:
  "to_numeric_heap R cols df h =
     (map_sum id (\<lambda>_. ()) (to_numeric R cols (objects h df)),
      put_frame df (case to_numeric R cols (objects h df) of Inl e \<Rightarrow> objects h df | Inr c \<Rightarrow> c) h)"
  by (simp add: to_numeric_heap_def to_numeric_def then_do_def df_getitems_def evaluate_def
      df_setitems_def put_frame_def and_then_def split: sum.splits)

lemma fill_mean_heap_eq:
  "fill_mean_heap R cols df h =
     (map_sum id (\<lambda>_. ()) (fill_mean R cols (objects h df)),
      put_frame df (case fill_mean R cols (objects h df) of Inl e \<Rightarrow> objects h df | Inr c \<Rightarrow> c) h)"
  by (simp add: fill_mean_heap_def fill_mean_def then_do_def df_getitems_def evaluate_def
      df_setitems_def put_frame_def and_then_def split: sum.splits)

lemma heap_tail_eq:
  "heap_tail R df h =
     (case encode_tail R (globals h) (objects h df) of
        Inl e \<Rightarrow> (Inl e, h)
      | Inr X \<Rightarrow> (Inr X, h\<lparr>stdout := stdout h @ [DfHead (objects h df)]\<rparr>))"
  by (simp add: heap_tail_def encode_tail_def then_do_def df_getitems_def read_globals_def
      evaluate_def print_head_def and_then_def split: sum.splits)

lemma encode_eq_tail:
  "encode R A data =
     and_then (strip_loop (label_encode_cols @ one_hot_encode_cols) data) (\<lambda>df.
     and_then (to_numeric R min_max_scale_cols df) (\<lambda>df.
     and_then (fill_mean R min_max_scale_cols df) (\<lambda>df.
     and_then (label_loop A label_encode_cols df) (\<lambda>df.
     and_then (encode_tail R A df) (\<lambda>X. Inr (df, X))))))"
  by (simp add: encode_def encode_tail_def and_then_def split: sum.splits)

lemma preprocess_data_heap_eq:
  "\<exists>c. preprocess_data_heap R p h =
     (fst (preprocess_data R (globals h) (objects h p) (stdout h)),
      h\<lparr>objects := (objects h)(next_addr h := c), next_addr := Suc (next_addr h),
        stdout := snd (preprocess_data R (globals h) (objects h p) (stdout h))\<rparr>)"
proof -
  define n where "n = next_addr h"
  define data where "data = objects h p"
  define A where "A = globals h"
  define h1 where "h1 = h\<lparr>objects := (objects h)(n := data), next_addr := Suc n\<rparr>"
  define H where "H = (\<lambda>c. put_frame n c h1)"
  define cat where "cat = label_encode_cols @ one_hot_encode_cols"
  let ?L = "preprocess_data_heap R p h"
  let ?P = "preprocess_data R A data (stdout h)"
  let ?goal = "\<exists>c. ?L = (fst ?P, (H c)\<lparr>stdout := snd ?P\<rparr>)"
  have H: "objects (H c) n = c" "globals (H c) = A" "stdout (H c) = stdout h" for c
    by (simp_all add: H_def h1_def A_def)
  have h1: "h1 = H data"
    by (simp add: H_def h1_def put_frame_def)
  have HH: "put_frame n c (H c') = H c" for c c'
    by (simp add: H_def)
  have same: "(H c)\<lparr>stdout := stdout h\<rparr> = H c" for c
    by (simp add: H_def h1_def put_frame_def)
  have L: "?L = then_do (strip_loop_heap cat n) (\<lambda>_.
     then_do (to_numeric_heap R min_max_scale_cols n) (\<lambda>_.
     then_do (fill_mean_heap R min_max_scale_cols n) (\<lambda>_.
     then_do (label_loop_heap label_encode_cols n) (\<lambda>_.
     heap_tail R n)))) (H data)"
    unfolding h1 [symmetric]
    by (simp add: preprocess_data_heap_def heap_tail_def then_do_def [of "DataFrame p"]
        DataFrame_def n_def data_def h1_def cat_def)
  have goal: ?goal
  proof (cases "strip_loop cat data")
    case (Inl e)
    then have "?L = (Inl e, H (strip_frame cat data))"
      unfolding L by (simp add: then_do_def strip_loop_heap_eq H HH)
    moreover have "?P = (Inl e, stdout h)"
      using Inl by (simp add: preprocess_data_def encode_eq_tail cat_def)
    ultimately show ?thesis by (auto simp: same)
  next
    case s1: (Inr df1)
    have f1: "strip_frame cat data = df1" using s1 by (rule strip_frame_Inr)
    have L1: "?L = then_do (to_numeric_heap R min_max_scale_cols n) (\<lambda>_.
       then_do (fill_mean_heap R min_max_scale_cols n) (\<lambda>_.
       then_do (label_loop_heap label_encode_cols n) (\<lambda>_.
       heap_tail R n))) (H df1)"
      unfolding L by (simp add: then_do_def [of "strip_loop_heap cat n"] strip_loop_heap_eq H HH s1 f1)
    show ?thesis
    proof (cases "to_numeric R min_max_scale_cols df1")
      case (Inl e)
      then have "?L = (Inl e, H df1)"
        unfolding L1 by (simp add: then_do_def to_numeric_heap_eq H HH)
      moreover have "?P = (Inl e, stdout h)"
        using Inl s1 by (simp add: preprocess_data_def encode_eq_tail cat_def)
      ultimately show ?thesis by (auto simp: same)
    next
      case s2: (Inr df2)
      have L2: "?L = then_do (fill_mean_heap R min_max_scale_cols n) (\<lambda>_.
         then_do (label_loop_heap label_encode_cols n) (\<lambda>_.
         heap_tail R n)) (H df2)"
        unfolding L1
        by (simp add: then_do_def [of "to_numeric_heap R min_max_scale_cols n"]
            to_numeric_heap_eq H HH s2)
      show ?thesis
      proof (cases "fill_mean R min_max_scale_cols df2")
        case (Inl e)
        then have "?L = (Inl e, H df2)"
          unfolding L2 by (simp add: then_do_def fill_mean_heap_eq H HH)
        moreover have "?P = (Inl e, stdout h)"
          using Inl s1 s2 by (simp add: preprocess_data_def encode_eq_tail cat_def)
        ultimately show ?thesis by (auto simp: same)
      next
        case s3: (Inr df3)
        have L3: "?L = then_do (label_loop_heap label_encode_cols n) (\<lambda>_.
           heap_tail R n) (H df3)"
          unfolding L2
          by (simp add: then_do_def [of "fill_mean_heap R min_max_scale_cols n"]
              fill_mean_heap_eq H HH s3)
        show ?thesis
        proof (cases "label_loop A label_encode_cols df3")
          case (Inl e)
          then have "?L = (Inl e, H (label_frame A label_encode_cols df3))"
            unfolding L3 by (simp add: then_do_def label_loop_heap_eq H HH)
          moreover have "?P = (Inl e, stdout h)"
            using Inl s1 s2 s3 by (simp add: preprocess_data_def encode_eq_tail cat_def)
          ultimately show ?thesis by (auto simp: same)
        next
          case s4: (Inr df4)
          have f4: "label_frame A label_encode_cols df3 = df4" using s4 by (rule label_frame_Inr)
          have L4: "?L = heap_tail R n (H df4)"
            unfolding L3
            by (simp add: then_do_def [of "label_loop_heap label_encode_cols n"]
                label_loop_heap_eq H HH s4 f4)
          show ?thesis
          proof (cases "encode_tail R A df4")
            case (Inl e)
            then have "?L = (Inl e, H df4)"
              unfolding L4 by (simp add: heap_tail_eq H)
            moreover have "?P = (Inl e, stdout h)"
              using Inl s1 s2 s3 s4 by (simp add: preprocess_data_def encode_eq_tail cat_def)
            ultimately show ?thesis by (auto simp: same)
          next
            case (Inr X)
            then have "?L = (Inr X, (H df4)\<lparr>stdout := stdout h @ [DfHead df4]\<rparr>)"
              unfolding L4 by (simp add: heap_tail_eq H)
            moreover have "?P = (Inr X, stdout h @ [DfHead df4])"
              using Inr s1 s2 s3 s4 by (simp add: preprocess_data_def encode_eq_tail cat_def)
            ultimately show ?thesis by auto
          qed
        qed
      qed
    qed
  qed
  have "(H c)\<lparr>stdout := out\<rparr>
      = h\<lparr>objects := (objects h)(next_addr h := c), next_addr := Suc (next_addr h),
          stdout := out\<rparr>" for c out
    by (simp add: H_def h1_def put_frame_def n_def)
  then show ?thesis
    using goal unfolding A_def data_def by simp
qed

section \<open>The claims\<close>

text \<open>
  Claim C1. For every dictionary whose fields are all within their domains, and
  transformers fitted on these domains, \<^verbatim>\<open>preprocess_data\<close> returns a row, and the row
  is, in this order: the codes of the five label columns (Partner, Dependents,
  PhoneService, PaperlessBilling, gender), each the position of the field's string
  among the classes of its encoder; the three numbers (tenure, MonthlyCharges,
  TotalCharges), converted to floats and scaled; the ten one-hot blocks, each with
  its one at the position of the field's string among the categories of its column.
  The width of the row is \<open>5 + 3\<close> plus the width of the one-hot encoder. The order is
  that of the three column lists, which no call changes.
\<close>

theorem encoder_layout:
  assumes v: "valid_record R data" and f: "fitted A"
  shows "\<exists>codes nums ks.
      length codes = 5 \<and> length nums = 3 \<and> length ks = 10
    \<and> (\<forall>j<5. \<exists>s classes. data (label_encode_cols ! j) = Some (PStr s)
            \<and> label_encoders A (label_encode_cols ! j) = Some classes
            \<and> index_of s classes = Some (codes ! j))
    \<and> (\<forall>j<3. \<exists>c. data (min_max_scale_cols ! j) = Some c \<and> astype_float R c = Inr (nums ! j))
    \<and> (\<forall>j<10. \<exists>s. data (one_hot_encode_cols ! j) = Some (PStr s)
            \<and> index_of s (one_hot_encoder A ! j) = Some (ks ! j))
    \<and> fst (preprocess_data R A data out) = Inr (spec_feature_vector R A codes nums ks)
    \<and> length (spec_feature_vector R A codes nums ks)
        = 5 + 3 + sum_list (map length (one_hot_encoder A))"
  using v f by (rule valid_record_row)

theorem encoder_layout_witness:
  "valid_record example_runtime (example_data (PStr ''DSL'') (PFloat (Num 600)))
   \<and> fitted example_artifacts
   \<and> (\<exists>codes nums ks.
      length codes = 5 \<and> length nums = 3 \<and> length ks = 10
    \<and> (\<forall>j<5. \<exists>s classes.
            example_data (PStr ''DSL'') (PFloat (Num 600)) (label_encode_cols ! j) = Some (PStr s)
            \<and> label_encoders example_artifacts (label_encode_cols ! j) = Some classes
            \<and> index_of s classes = Some (codes ! j))
    \<and> (\<forall>j<3. \<exists>c.
            example_data (PStr ''DSL'') (PFloat (Num 600)) (min_max_scale_cols ! j) = Some c
            \<and> astype_float example_runtime c = Inr (nums ! j))
    \<and> (\<forall>j<10. \<exists>s.
            example_data (PStr ''DSL'') (PFloat (Num 600)) (one_hot_encode_cols ! j) = Some (PStr s)
            \<and> index_of s (one_hot_encoder example_artifacts ! j) = Some (ks ! j))
    \<and> fst (preprocess_data example_runtime example_artifacts
              (example_data (PStr ''DSL'') (PFloat (Num 600))) [])
        = Inr (spec_feature_vector example_runtime example_artifacts codes nums ks)
    \<and> length (spec_feature_vector example_runtime example_artifacts codes nums ks)
        = 5 + 3 + sum_list (map length (one_hot_encoder example_artifacts)))"
  by (intro conjI example_valid example_fitted encoder_layout [OF example_valid example_fitted])




text \<open>
  Claim C3. The claim says that every string of whitespace in a numeric field is
  treated as missing. The code replaces the string of exactly one space by NaN and
  nothing else: two spaces, or a tab, reach \<^verbatim>\<open>float\<close>, which raises. Here is what the
  code does, for any runtime and any transformers, on the customer of the scenario.
\<close>

theorem whitespace_strings_not_missing:
  "astype_float R (replace_space (PStr '' '')) = Inr NaN
   \<and> fst (preprocess_data R A (example_data (PStr ''DSL'') (PStr ''  '')) out)
       = Inl (CouldNotConvert ''  '')
   \<and> fst (preprocess_data R A (example_data (PStr ''DSL'') (PStr [CHR 0x09])) out)
       = Inl (CouldNotConvert [CHR 0x09])"
proof (intro conjI)
  show "astype_float R (replace_space (PStr '' '')) = Inr NaN"
    by (simp add: replace_space_def)
  show "fst (preprocess_data R A (example_data (PStr ''DSL'') (PStr ''  '')) out)
       = Inl (CouldNotConvert ''  '')"
    by (rule example_not_converted) (simp_all add: strip_blank)
  show "fst (preprocess_data R A (example_data (PStr ''DSL'') (PStr [CHR 0x09])) out)
       = Inl (CouldNotConvert [CHR 0x09])"
    by (rule example_not_converted) (simp_all add: strip_blank)
qed

text \<open>
  Claim C4, the statement that holds. A fitted minimum equal to the fitted maximum is
  not an error, and there is no error of that kind in the code.
  \<^item> \<^verbatim>\<open>preprocess_data\<close> returns and prints the same whatever the fitted minimum and
    maximum of each field are replaced by, equal or not: \<^verbatim>\<open>transform\<close> reads neither.
  \<^item> With minimum and maximum made equal in every field, a dictionary within the
    domains is still encoded by fitted transformers: \<^verbatim>\<open>preprocess_data\<close> returns a row,
    and its entries 5 to 7 are the scaled values of the three numbers.
  \<^item> The scaled value of NaN is NaN; the scaled value of a number is the number times
    the stored scale plus the stored offset, clipped to the feature range if the
    scaler clips, and NaN only when the multiplication or the addition gives NaN.
  \<^item> On a row of floats the scaler raises in two cases only: a value is infinite, or
    the row has another number of columns than the scaler.
\<close>

theorem degenerate_range_is_not_an_error:
  "preprocess_data R (with_range lo hi A) data out = preprocess_data R A data out
   \<and> list_all (\<lambda>c. data_min c = data_max c) (scaler_cols (min_max_scaler (with_range m m A)))
   \<and> (valid_record R data \<and> fitted A \<longrightarrow>
        (\<exists>nums X. length nums = 3
          \<and> (\<forall>j<3. \<exists>c. data (min_max_scale_cols ! j) = Some c
                  \<and> astype_float R c = Inr (nums ! j))
          \<and> fst (preprocess_data R (with_range m m A) data out) = Inr X
          \<and> take 3 (drop 5 X)
              = map2 (scale_value R (min_max_scaler A)) (scaler_cols (min_max_scaler A)) nums))
   \<and> scale_value R sc c NaN = NaN
   \<and> scale_value R sc c (Num v) =
       (case f_mul R v (scaler_scale c) of
          NaN \<Rightarrow> NaN
        | Num w \<Rightarrow>
            (case f_add R w (scaler_min c) of
               NaN \<Rightarrow> NaN
             | Num y \<Rightarrow>
                 Num (if clip sc then f_clip R y (fst (feature_range sc)) (snd (feature_range sc))
                      else y)))
   \<and> mms_transform R sc (map PFloat xs) =
       (if list_ex (is_inf R) xs then Inl InputContainsInfinity
        else if length xs \<noteq> length (scaler_cols sc)
        then Inl (FeatureCountMismatch (length xs) (length (scaler_cols sc)))
        else Inr (map2 (scale_value R sc) (scaler_cols sc) xs))"
proof (intro conjI impI)
  show "preprocess_data R (with_range lo hi A) data out = preprocess_data R A data out"
    by (rule preprocess_data_with_range)
  show "list_all (\<lambda>c. data_min c = data_max c) (scaler_cols (min_max_scaler (with_range m m A)))"
    by (rule list_all_with_range)
  show "scale_value R sc c NaN = NaN"
    by (simp add: scale_value_def)
  show "scale_value R sc c (Num v) =
       (case f_mul R v (scaler_scale c) of
          NaN \<Rightarrow> NaN
        | Num w \<Rightarrow>
            (case f_add R w (scaler_min c) of
               NaN \<Rightarrow> NaN
             | Num y \<Rightarrow>
                 Num (if clip sc then f_clip R y (fst (feature_range sc)) (snd (feature_range sc))
                      else y)))"
    by (rule scale_value_Num)
  show "mms_transform R sc (map PFloat xs) =
       (if list_ex (is_inf R) xs then Inl InputContainsInfinity
        else if length xs \<noteq> length (scaler_cols sc)
        then Inl (FeatureCountMismatch (length xs) (length (scaler_cols sc)))
        else Inr (map2 (scale_value R sc) (scaler_cols sc) xs))"
    by (rule mms_transform_on_floats)
next
  assume "valid_record R data \<and> fitted A"
  then have "\<exists>nums X. length nums = 3
      \<and> (\<forall>j<3. \<exists>c. data (min_max_scale_cols ! j) = Some c \<and> astype_float R c = Inr (nums ! j))
      \<and> fst (preprocess_data R A data out) = Inr X
      \<and> take 3 (drop 5 X)
          = map2 (scale_value R (min_max_scaler A)) (scaler_cols (min_max_scaler A)) nums"
    by (intro valid_record_scaled) simp_all
  then show "\<exists>nums X. length nums = 3
          \<and> (\<forall>j<3. \<exists>c. data (min_max_scale_cols ! j) = Some c
                  \<and> astype_float R c = Inr (nums ! j))
          \<and> fst (preprocess_data R (with_range m m A) data out) = Inr X
          \<and> take 3 (drop 5 X)
              = map2 (scale_value R (min_max_scaler A)) (scaler_cols (min_max_scaler A)) nums"
    by (simp only: preprocess_data_with_range)
qed

theorem degenerate_range_is_not_an_error_witness:
  "valid_record example_runtime (example_data (PStr ''DSL'') (PFloat (Num 600)))
   \<and> fitted example_artifacts
   \<and> list_all (\<lambda>c. data_min c = data_max c)
       (scaler_cols (min_max_scaler (with_range (\<lambda>c. 12) (\<lambda>c. 12) example_artifacts)))
   \<and> (\<exists>nums. length nums = 3
        \<and> fst (preprocess_data example_runtime (with_range (\<lambda>c. 12) (\<lambda>c. 12) example_artifacts)
                 (example_data (PStr ''DSL'') (PFloat (Num 600))) [])
          = Inr (example_row (Num (3 / 40)))
        \<and> take 3 (drop 5 (example_row (Num (3 / 40))))
          = map2 (scale_value example_runtime (min_max_scaler example_artifacts))
              (scaler_cols (min_max_scaler example_artifacts)) nums)"
proof -
  let ?D = "example_data (PStr ''DSL'') (PFloat (Num 600))"
  let ?A = "with_range (\<lambda>c. 12) (\<lambda>c. 12) example_artifacts"
  note t = degenerate_range_is_not_an_error
    [where R = example_runtime and A = example_artifacts and data = ?D and out = "[]"
       and lo = "\<lambda>c. 12" and hi = "\<lambda>c. 12" and m = "\<lambda>c. 12"]
  have e: "fst (preprocess_data example_runtime example_artifacts ?D [])
      = Inr (example_row (Num (3 / 40)))"
    using example_encode_DSL [OF example_float_total(1)] by (simp only: example_float_total(2))
  from t have same: "preprocess_data example_runtime ?A ?D []
      = preprocess_data example_runtime example_artifacts ?D []"
    and deg: "list_all (\<lambda>c. data_min c = data_max c) (scaler_cols (min_max_scaler ?A))"
    and row: "valid_record example_runtime ?D \<and> fitted example_artifacts \<longrightarrow>
        (\<exists>nums X. length nums = 3
          \<and> (\<forall>j<3. \<exists>c. ?D (min_max_scale_cols ! j) = Some c
                  \<and> astype_float example_runtime c = Inr (nums ! j))
          \<and> fst (preprocess_data example_runtime ?A ?D []) = Inr X
          \<and> take 3 (drop 5 X)
              = map2 (scale_value example_runtime (min_max_scaler example_artifacts))
                  (scaler_cols (min_max_scaler example_artifacts)) nums)"
    by blast+
  from row example_valid example_fitted obtain nums X where
    "length nums = 3" "fst (preprocess_data example_runtime ?A ?D []) = Inr X"
    "take 3 (drop 5 X)
       = map2 (scale_value example_runtime (min_max_scaler example_artifacts))
           (scaler_cols (min_max_scaler example_artifacts)) nums"
    by blast
  moreover have "fst (preprocess_data example_runtime ?A ?D []) = Inr (example_row (Num (3 / 40)))"
    using same e by simp
  ultimately show ?thesis
    using example_valid example_fitted deg by auto
qed

text \<open>
  The claim as it is written asks for an error. With a scaler whose tenure column
  has minimum and maximum 12, the scenario is encoded without one, and the scaled
  tenure is \<open>12 * 1 - 12 = 0\<close>.
\<close>

theorem degenerate_scale_counterexample:
  "data_min (scaler_cols (min_max_scaler degenerate_artifacts) ! 0)
     = data_max (scaler_cols (min_max_scaler degenerate_artifacts) ! 0)
   \<and> fst (preprocess_data example_runtime degenerate_artifacts
            (example_data (PStr ''DSL'') (PFloat (Num 600))) [])
     = Inr (map Num [1, 0, 1, 0, 0] @ [Num 0, Num (8 / 25), Num (3 / 40)]
            @ drop 8 (example_row NaN))"
proof (intro conjI)
  show "data_min (scaler_cols (min_max_scaler degenerate_artifacts) ! 0)
     = data_max (scaler_cols (min_max_scaler degenerate_artifacts) ! 0)"
    by (simp add: degenerate_artifacts_def)
  have "mms_transform example_runtime (min_max_scaler degenerate_artifacts)
             [PFloat (Num 12), PFloat (Num 50), PFloat (Num 600)]
      = Inr [Num 0, Num (8 / 25), Num (3 / 40)]"
    by (simp add: degenerate_artifacts_def mms_transform_def example_scaler_def is_inf_def
        scale_value_def example_runtime_def)
  then show "fst (preprocess_data example_runtime degenerate_artifacts
            (example_data (PStr ''DSL'') (PFloat (Num 600))) [])
     = Inr (map Num [1, 0, 1, 0, 0] @ [Num 0, Num (8 / 25), Num (3 / 40)]
            @ drop 8 (example_row NaN))"
    by (intro example_encode_DSL_with) (simp_all add: degenerate_artifacts_def)
qed

text \<open>
  Claim C5. For each of the fifteen categorical columns, whitespace before and after
  the string of the field does not change what \<^verbatim>\<open>preprocess_data\<close> returns, nor what
  it prints: the dictionary with \<open>l @ v @ r\<close> in the field, \<open>l\<close> and \<open>r\<close> whitespace,
  is encoded as the dictionary with \<open>v\<close>. This holds for every string \<open>v\<close>, inside
  the domain or not.
\<close>

theorem whitespace_padding_ignored:
  assumes "col \<in> set (label_encode_cols @ one_hot_encode_cols)"
      and "\<forall>c\<in>set l. is_space c" and "\<forall>c\<in>set r. is_space c"
  shows "preprocess_data R A (data(col \<mapsto> PStr (l @ v @ r))) out
       = preprocess_data R A (data(col \<mapsto> PStr v)) out"
proof -
  have "strip (l @ v @ r) = strip v"
    using assms(2,3) by (rule strip_pad)
  then have "strip_loop (label_encode_cols @ one_hot_encode_cols) (data(col \<mapsto> PStr (l @ v @ r)))
      = strip_loop (label_encode_cols @ one_hot_encode_cols) (data(col \<mapsto> PStr v))"
    by (rule strip_loop_same [OF assms(1)])
  then show ?thesis
    by (simp only: preprocess_data_def encode_def)
qed

theorem whitespace_padding_ignored_witness:
  "''Partner'' \<in> set (label_encode_cols @ one_hot_encode_cols)
   \<and> list_all is_space '' '' \<and> list_all is_space [CHR 0x09]
   \<and> preprocess_data example_runtime example_artifacts
        ((example_data (PStr ''DSL'') (PFloat (Num 600)))
           (''Partner'' \<mapsto> PStr ('' '' @ ''Yes'' @ [CHR 0x09]))) []
     = preprocess_data example_runtime example_artifacts
        ((example_data (PStr ''DSL'') (PFloat (Num 600)))(''Partner'' \<mapsto> PStr ''Yes'')) []"
proof -
  have 1: "''Partner'' \<in> set (label_encode_cols @ one_hot_encode_cols)"
    by (simp add: label_encode_cols_def)
  have 2: "\<forall>c\<in>set '' ''. is_space c" by (simp add: is_space_def)
  have 3: "\<forall>c\<in>set [CHR 0x09]. is_space c" by (simp add: is_space_def)
  have "list_all is_space '' ''" "list_all is_space [CHR 0x09]"
    using 2 3 by (simp_all add: list_all_iff)
  then show ?thesis
    using 1 whitespace_padding_ignored [OF 1 2 3] by blast
qed

text \<open>
  Claim C6. When preprocessing, the classifier and the decoding of the class all
  succeed, \<^verbatim>\<open>predict\<close> returns \<^verbatim>\<open>"Churn"\<close> if the decoded label is \<^verbatim>\<open>"Yes"\<close> and
  \<^verbatim>\<open>"No Churn"\<close> for every other label.
\<close>

theorem predict_maps_label:
  fixes R :: "'f runtime"
  assumes "data = make_data gender senior_citizen partner dependents tenure phone_service
          multiple_lines internet_service online_security online_backup device_protection
          tech_support streaming_tv streaming_movies contract paperless_billing
          payment_method monthly_charges total_charges"
      and "fst (preprocess_data R A data out) = Inr X"
      and "model A X = Inr y"
      and "inverse_transform (le_target A) y = (Inr label :: 'f error + string)"
  shows "fst (predict R A gender senior_citizen partner dependents tenure phone_service
          multiple_lines internet_service online_security online_backup device_protection
          tech_support streaming_tv streaming_movies contract paperless_billing
          payment_method monthly_charges total_charges out)
       = (if label = ''Yes'' then ''Churn'' else ''No Churn'')"
  using assms by (simp add: predict_def fst_predict_data fst_try_body)

theorem predict_maps_label_witness:
  "fst (preprocess_data example_runtime example_artifacts
          (example_data (PStr ''DSL'') (PFloat (Num 600))) []) = Inr (example_row (Num (3 / 40)))
   \<and> model example_artifacts (example_row (Num (3 / 40))) = Inr 1
   \<and> inverse_transform (le_target example_artifacts) 1 = (Inr ''Yes'' :: rat error + string)
   \<and> fst (predict example_runtime example_artifacts
        (PStr ''Female'') (PInt 0) (PStr ''Yes'') (PStr ''No'') (PInt 12)
        (PStr ''Yes'') (PStr ''No'') (PStr ''DSL'') (PStr ''Yes'') (PStr ''No'') (PStr ''No'')
        (PStr ''No'') (PStr ''No'') (PStr ''No'') (PStr ''One year'') (PStr ''No'')
        (PStr ''Mailed check'') (PFloat (Num 50)) (PFloat (Num 600)) []) = ''Churn''"
proof -
  have 1: "fst (preprocess_data example_runtime example_artifacts
          (example_data (PStr ''DSL'') (PFloat (Num 600))) []) = Inr (example_row (Num (3 / 40)))"
    using example_encode_DSL [OF example_float_total(1)] by (simp only: example_float_total(2))
  have 2: "model example_artifacts (example_row (Num (3 / 40))) = Inr 1"
    by (simp add: example_artifacts_def example_model_row)
  have 3: "inverse_transform (le_target example_artifacts) 1 = (Inr ''Yes'' :: rat error + string)"
    by (simp add: example_artifacts_def inverse_transform_def)
  show ?thesis
    using 1 2 3 predict_maps_label [OF example_data_def 1 2 3] by simp
qed

text \<open>
  Claim C7. Whatever raises inside the try block, \<^verbatim>\<open>predict\<close> returns the text of the
  exception: a failure of \<^verbatim>\<open>preprocess_data\<close>, of the classifier, or of the decoding
  of the class. No exception leaves \<^verbatim>\<open>predict\<close>: its result is always one of the two
  labels or the text of an exception.
\<close>

theorem predict_returns_message:
  assumes "data = make_data gender senior_citizen partner dependents tenure phone_service
          multiple_lines internet_service online_security online_backup device_protection
          tech_support streaming_tv streaming_movies contract paperless_billing
          payment_method monthly_charges total_charges"
      and "result = fst (predict R A gender senior_citizen partner dependents tenure phone_service
          multiple_lines internet_service online_security online_backup device_protection
          tech_support streaming_tv streaming_movies contract paperless_billing
          payment_method monthly_charges total_charges out)"
  shows "(fst (preprocess_data R A data out) = Inl e \<longrightarrow> result = str_exc R e)
   \<and> (fst (preprocess_data R A data out) = Inr X \<and> model A X = Inl e
        \<longrightarrow> result = str_exc R e)
   \<and> (fst (preprocess_data R A data out) = Inr X \<and> model A X = Inr y
        \<and> inverse_transform (le_target A) y = Inl e
        \<longrightarrow> result = str_exc R e)
   \<and> result \<in> {''Churn'', ''No Churn''} \<union> range (str_exc R)"
  using assms
  by (auto simp: predict_def fst_predict_data fst_try_body and_then_def split: sum.splits)

theorem predict_returns_message_witness:
  "fst (preprocess_data example_runtime example_artifacts
          (example_data (PStr ''Cable'') (PFloat (Num 600))) [])
     = Inl (UnknownCategories (PStr ''Cable'') 1)
   \<and> example_predict example_artifacts (PStr ''Cable'') (PFloat (Num 600))
     = ''Found unknown categories''
   \<and> fst (preprocess_data example_runtime example_artifacts
          (example_data (PStr ''DSL'') (PStr '' '')) []) = Inr (example_row NaN)
   \<and> model example_artifacts (example_row NaN) = Inl (ModelError ''Input X contains NaN.'')
   \<and> example_predict example_artifacts (PStr ''DSL'') (PStr '' '') = ''Input X contains NaN.''
   \<and> fst (preprocess_data example_runtime (example_artifacts\<lparr>le_target := []\<rparr>)
          (example_data (PStr ''DSL'') (PFloat (Num 600))) []) = Inr (example_row (Num (3 / 40)))
   \<and> model (example_artifacts\<lparr>le_target := []\<rparr>) (example_row (Num (3 / 40))) = Inr 1
   \<and> inverse_transform (le_target (example_artifacts\<lparr>le_target := []\<rparr>)) 1
        = (Inl (UnseenClassIndex 1) :: rat error + string)
   \<and> example_predict (example_artifacts\<lparr>le_target := []\<rparr>) (PStr ''DSL'') (PFloat (Num 600))
     = ''y contains previously unseen labels''"
proof -
  let ?A = "example_artifacts\<lparr>le_target := []\<rparr>"
  have a: "fst (preprocess_data example_runtime example_artifacts
          (example_data (PStr ''Cable'') (PFloat (Num 600))) [])
     = Inl (UnknownCategories (PStr ''Cable'') 1)"
    by (rule example_encode_Cable [OF example_float_total(1)])
  have b1: "fst (preprocess_data example_runtime example_artifacts
          (example_data (PStr ''DSL'') (PStr '' '')) []) = Inr (example_row NaN)"
    using example_encode_DSL [OF example_nan_total(1)] by (simp only: example_nan_total(2))
  have b2: "model example_artifacts (example_row NaN) = Inl (ModelError ''Input X contains NaN.'')"
    by (simp add: example_artifacts_def example_model_row)
  have c0: "fst (preprocess_data example_runtime example_artifacts
          (example_data (PStr ''DSL'') (PFloat (Num 600))) []) = Inr (example_row (Num (3 / 40)))"
    using example_encode_DSL [OF example_float_total(1)] by (simp only: example_float_total(2))
  have "encode example_runtime ?A (example_data (PStr ''DSL'') (PFloat (Num 600)))
      = encode example_runtime example_artifacts (example_data (PStr ''DSL'') (PFloat (Num 600)))"
    by (rule encode_cong) simp_all
  then have c1: "fst (preprocess_data example_runtime ?A
          (example_data (PStr ''DSL'') (PFloat (Num 600))) []) = Inr (example_row (Num (3 / 40)))"
    using c0 by (simp only: fst_preprocess_data)
  have c2: "model ?A (example_row (Num (3 / 40))) = Inr 1"
    by (simp add: example_artifacts_def example_model_row)
  have c3: "inverse_transform (le_target ?A) 1 = (Inl (UnseenClassIndex 1) :: rat error + string)"
    by (simp add: inverse_transform_def)
  note use = predict_returns_message [OF example_data_def example_predict_def]
  have "example_predict example_artifacts (PStr ''Cable'') (PFloat (Num 600))
     = str_exc example_runtime (UnknownCategories (PStr ''Cable'') 1)"
    using use [of example_artifacts "PStr ''Cable''" "PFloat (Num 600)"] a by blast
  moreover have "example_predict example_artifacts (PStr ''DSL'') (PStr '' '')
     = str_exc example_runtime (ModelError ''Input X contains NaN.'')"
    using use [of example_artifacts "PStr ''DSL''" "PStr '' ''"] b1 b2 by blast
  moreover have "example_predict ?A (PStr ''DSL'') (PFloat (Num 600))
     = str_exc example_runtime (UnseenClassIndex 1)"
    using use [of ?A "PStr ''DSL''" "PFloat (Num 600)"] c1 c2 c3 by blast
  ultimately show ?thesis
    using a b1 b2 c1 c2 c3 by (simp add: example_runtime_def)
qed

text \<open>
  Claim C8. The claim says that a single space as \<^verbatim>\<open>TotalCharges\<close> is either imputed
  or refused by the encoder, and that no NaN reaches the classifier. The code turns
  the space into NaN, fills it with the mean of a column whose only value is that
  NaN, and returns a row whose eighth entry is NaN; \<^verbatim>\<open>predict\<close> hands this row to the
  classifier. A classifier that validates its input refuses it and \<^verbatim>\<open>predict\<close> returns
  that message; a classifier that does not validate answers with a label.
\<close>

theorem blank_total_charges_reaches_classifier:
  "fst (preprocess_data example_runtime example_artifacts
          (example_data (PStr ''DSL'') (PStr '' '')) []) = Inr (example_row NaN)
   \<and> example_row NaN ! 7 = NaN
   \<and> example_predict example_artifacts (PStr ''DSL'') (PStr '' '') = ''Input X contains NaN.''
   \<and> example_predict (example_artifacts\<lparr>model := \<lambda>X. Inr 1\<rparr>) (PStr ''DSL'') (PStr '' '')
       = ''Churn''"
proof -
  let ?data = "example_data (PStr ''DSL'') (PStr '' '')"
  let ?A = "example_artifacts\<lparr>model := \<lambda>X. Inr 1\<rparr>"
  have 1: "fst (preprocess_data example_runtime example_artifacts ?data []) = Inr (example_row NaN)"
    using example_encode_DSL [OF example_nan_total(1)] by (simp only: example_nan_total(2))
  have 2: "example_row NaN ! 7 = NaN"
    by (simp add: example_row_def)
  have 3: "example_predict example_artifacts (PStr ''DSL'') (PStr '' '') = ''Input X contains NaN.''"
    unfolding example_predict_eq 1 and_then_Inr
    by (simp add: example_artifacts_def example_model_row)
  have "encode example_runtime ?A ?data = encode example_runtime example_artifacts ?data"
    by (rule encode_cong) simp_all
  then have "fst (preprocess_data example_runtime ?A ?data []) = Inr (example_row NaN)"
    using 1 by (simp only: fst_preprocess_data)
  then have 4: "example_predict ?A (PStr ''DSL'') (PStr '' '') = ''Churn''"
    unfolding example_predict_eq
    by (simp add: example_artifacts_def inverse_transform_def)
  show ?thesis using 1 2 3 4 by blast
qed

text \<open>
  Claim C9. A call of \<^verbatim>\<open>preprocess_data\<close> on a dictionary that was allocated before
  the call returns what the function of the dictionary's items and of the
  transformers returns (the row of the other claims, or its exception); it leaves the
  transformers as they were and writes to no object that existed before the call,
  the dictionary included: its assignments go to the frame it creates. So a second
  call on the same dictionary, in the heap the first call left, returns the same: the
  same row, entry by entry, or the same exception.
\<close>

theorem preprocess_data_repeatable:
  assumes "data < next_addr h"
  shows "fst (preprocess_data_heap R data h)
           = fst (preprocess_data R (globals h) (objects h data) (stdout h))
       \<and> globals (snd (preprocess_data_heap R data h)) = globals h
       \<and> (\<forall>a<next_addr h. objects (snd (preprocess_data_heap R data h)) a = objects h a)
       \<and> fst (preprocess_data_heap R data (snd (preprocess_data_heap R data h)))
           = fst (preprocess_data_heap R data h)"
proof -
  obtain c where 1: "preprocess_data_heap R data h =
     (fst (preprocess_data R (globals h) (objects h data) (stdout h)),
      h\<lparr>objects := (objects h)(next_addr h := c), next_addr := Suc (next_addr h),
        stdout := snd (preprocess_data R (globals h) (objects h data) (stdout h))\<rparr>)"
    using preprocess_data_heap_eq by blast
  let ?h = "snd (preprocess_data_heap R data h)"
  have g: "globals ?h = globals h" and o: "\<forall>a<next_addr h. objects ?h a = objects h a"
    by (simp_all add: 1)
  have d: "objects ?h data = objects h data" using o assms by blast
  obtain c' where 2: "preprocess_data_heap R data ?h =
     (fst (preprocess_data R (globals ?h) (objects ?h data) (stdout ?h)),
      ?h\<lparr>objects := (objects ?h)(next_addr ?h := c'), next_addr := Suc (next_addr ?h),
        stdout := snd (preprocess_data R (globals ?h) (objects ?h data) (stdout ?h))\<rparr>)"
    using preprocess_data_heap_eq by blast
  have "fst (preprocess_data_heap R data ?h) = fst (preprocess_data_heap R data h)"
    unfolding 2 fst_conv g d unfolding 1 fst_conv fst_preprocess_data ..
  then show ?thesis using 1 g o by simp
qed

theorem preprocess_data_repeatable_witness:
  "0 < next_addr example_heap
   \<and> fst (preprocess_data_heap example_runtime 0 example_heap)
       = Inr (example_row (Num (3 / 40)))
   \<and> fst (preprocess_data_heap example_runtime 0
            (snd (preprocess_data_heap example_runtime 0 example_heap)))
       = Inr (example_row (Num (3 / 40)))"
proof -
  have 0: "0 < next_addr example_heap" by (simp add: example_heap_def)
  have e: "fst (preprocess_data example_runtime (globals example_heap) (objects example_heap 0)
              (stdout example_heap)) = Inr (example_row (Num (3 / 40)))"
    using example_encode_DSL [OF example_float_total(1)]
    by (simp add: example_heap_def example_float_total(2))
  show ?thesis
    using 0 e preprocess_data_repeatable [OF 0, of example_runtime] by simp
qed

text \<open>
  Claim C10. Two calls of \<^verbatim>\<open>predict\<close> whose arguments differ in \<^verbatim>\<open>senior_citizen\<close>
  only return the same text (what they print differs: the frame that is printed has
  the column). The column \<^verbatim>\<open>SeniorCitizen\<close> is in none of the three column lists.
\<close>

theorem predict_ignores_senior_citizen:
  "fst (predict R A gender senior_citizen partner dependents tenure phone_service
          multiple_lines internet_service online_security online_backup device_protection
          tech_support streaming_tv streaming_movies contract paperless_billing
          payment_method monthly_charges total_charges out)
   = fst (predict R A gender senior_citizen' partner dependents tenure phone_service
          multiple_lines internet_service online_security online_backup device_protection
          tech_support streaming_tv streaming_movies contract paperless_billing
          payment_method monthly_charges total_charges out')"
  unfolding predict_def fst_predict_data fst_try_body fst_preprocess_data
  by (subst (2) make_data_senior [where sc = senior_citizen])
    (simp only: encode_upd_other [OF senior_not_used])

end
